theory Spec2Isabelle
  imports Complex_Main
begin

section \<open>JavaScript values\<close>

text \<open>
  The values that flow through the verifier are the results of \<^verbatim>\<open>JSON.parse\<close> and the
  values of missing properties (\<^verbatim>\<open>undefined\<close>). Strings are byte strings (UTF-8 text);
  a finite number is its rational value, so that \<^verbatim>\<open>-0\<close> and \<^verbatim>\<open>0\<close> coincide, as they do
  for \<^verbatim>\<open>===\<close> and for truthiness (the \<^verbatim>\<open>Infinity\<close> of an overflowing literal is not
  represented). An object is the list of its own properties, read with \<open>map_of\<close>; the
  order of the list is the order in which the properties are enumerated.
\<close>

datatype jsval =
    JUndefined
  | JNull
  | JBool bool
  | JNum rat
  | JStr string
  | JArr "jsval list"
  | JObj "(string \<times> jsval) list"

type_synonym obj = "(string \<times> jsval) list"

text \<open>A thrown exception is a value carrying its \<^verbatim>\<open>message\<close>.\<close>

datatype js_error = TypeError string | URIError string | Error string

fun error_message :: "js_error \<Rightarrow> string" where
  "error_message (TypeError m) = m"
| "error_message (URIError m) = m"
| "error_message (Error m) = m"

text \<open>\<^verbatim>\<open>!!v\<close>\<close>

fun truthy :: "jsval \<Rightarrow> bool" where
  "truthy JUndefined = False"
| "truthy JNull = False"
| "truthy (JBool b) = b"
| "truthy (JNum n) = (n \<noteq> 0)"
| "truthy (JStr s) = (s \<noteq> [])"
| "truthy (JArr xs) = True"
| "truthy (JObj kvs) = True"

fun nullish :: "jsval \<Rightarrow> bool" where
  "nullish JUndefined = True"
| "nullish JNull = True"
| "nullish v = False"

text \<open>
  \<^verbatim>\<open>a === b\<close> for two values that come from different \<^verbatim>\<open>JSON.parse\<close> calls (a scanned
  payload and a stored submission): primitives compare by value, and two objects or arrays
  are never the same reference.
\<close>

fun strict_eq :: "jsval \<Rightarrow> jsval \<Rightarrow> bool" where
  "strict_eq JUndefined JUndefined = True"
| "strict_eq JNull JNull = True"
| "strict_eq (JBool a) (JBool b) = (a = b)"
| "strict_eq (JNum a) (JNum b) = (a = b)"
| "strict_eq (JStr a) (JStr b) = (a = b)"
| "strict_eq a b = False"

text \<open>
  \<^verbatim>\<open>o.k\<close> on an object given by its own properties. The property names the program reads
  (name, dob, aadhaar, mobile, username, address, age, verifiedAt, verificationRequested,
  text, data, encryptedData, id, submittedAt, status) are on no prototype, so a missing
  own property reads as \<^verbatim>\<open>undefined\<close>.
\<close>

definition field :: "obj \<Rightarrow> string \<Rightarrow> jsval" where
  "field kvs k = (case map_of kvs k of None \<Rightarrow> JUndefined | Some v \<Rightarrow> v)"

text \<open>
  \<^verbatim>\<open>v.k\<close> on any value, for the same property names: reading a property of
  \<^verbatim>\<open>null\<close> or \<^verbatim>\<open>undefined\<close> throws a TypeError whose text the engine chooses; a
  primitive or an array has none of these properties.
\<close>

fun get_prop :: "(jsval \<Rightarrow> string \<Rightarrow> string) \<Rightarrow> jsval \<Rightarrow> string \<Rightarrow> js_error + jsval" where
  "get_prop tem JUndefined k = Inl (TypeError (tem JUndefined k))"
| "get_prop tem JNull k = Inl (TypeError (tem JNull k))"
| "get_prop tem (JObj kvs) k = Inr (field kvs k)"
| "get_prop tem v k = Inr JUndefined"

text \<open>\<^verbatim>\<open>v?.k\<close>\<close>

fun opt_prop :: "jsval \<Rightarrow> string \<Rightarrow> jsval" where
  "opt_prop (JObj kvs) k = field kvs k"
| "opt_prop v k = JUndefined"

text \<open>\<^verbatim>\<open>s.includes(pat)\<close>\<close>

fun str_includes :: "string \<Rightarrow> string \<Rightarrow> bool" where
  "str_includes [] pat = (pat = [])"
| "str_includes (c # cs) pat = (take (length pat) (c # cs) = pat \<or> str_includes cs pat)"

text \<open>
  Whether \<^verbatim>\<open>String(v)\<close>, a template literal \<^verbatim>\<open>`${v}`\<close> and the conversion of an argument to
  a primitive succeed. An object parsed from JSON has no callable property, so one with
  an own \<^verbatim>\<open>toString\<close> property converts to no primitive and the conversion throws a
  TypeError; any other object converts through \<^verbatim>\<open>Object.prototype.toString\<close>. An array
  converts by joining the conversions of its elements.
\<close>

fun stringifiable :: "jsval \<Rightarrow> bool" where
  "stringifiable (JObj kvs) = (map_of kvs ''toString'' = None)"
| "stringifiable (JArr xs) = (\<forall>x\<in>set xs. stringifiable x)"
| "stringifiable v = True"

section \<open>The engine\<close>

text \<open>
  What the program calls and does not define: the built-ins of the JavaScript engine and
  the CryptoJS library. They are parameters of the model. A built-in that throws returns
  \<open>None\<close>.

  \<^item> \<open>jsonParse\<close>: \<^verbatim>\<open>JSON.parse(text)\<close>;
  \<^item> \<open>jsonStringify\<close>: \<^verbatim>\<open>JSON.stringify(v)\<close>, a string or \<^verbatim>\<open>undefined\<close>;
  \<^item> \<open>toStr\<close>: \<^verbatim>\<open>String(v)\<close>, the conversion every built-in applies to a non-string
    argument, for a value that converts;
  \<^item> \<open>codeUnits\<close>: the characters \<^verbatim>\<open>s[0]\<close>, \<^verbatim>\<open>s[1]\<close>, ... of a string, each as a string;
  \<^item> \<open>newURL\<close>: \<^verbatim>\<open>new URL(text)\<close>, giving the query of the parsed URL (without the
    leading question mark);
  \<^item> \<open>atob\<close>: base64 decoding;
  \<^item> \<open>toLowerCase\<close>, \<open>trim\<close>: the string methods;
  \<^item> \<open>dateParse\<close>: \<^verbatim>\<open>Date.parse(text)\<close> in milliseconds, \<open>None\<close> for \<^verbatim>\<open>NaN\<close>;
  \<^item> \<open>aesEncrypt\<close>: \<^verbatim>\<open>CryptoJS.AES.encrypt(message, passphrase).toString()\<close>;
  \<^item> \<open>aesDecrypt\<close>: \<^verbatim>\<open>CryptoJS.AES.decrypt(ciphertext, passphrase)\<close>, the decrypted bytes;
  \<^item> \<open>utf8Stringify\<close>: \<^verbatim>\<open>wordArray.toString(CryptoJS.enc.Utf8)\<close>;
  \<^item> \<open>typeErrorMessage\<close>: the text of the TypeError raised by reading or calling
    property \<open>k\<close> of \<open>v\<close> (with \<open>k\<close> = \<^verbatim>\<open>toString\<close>: by converting \<open>v\<close> to a primitive).
\<close>

record engine =
  jsonParse :: "string \<Rightarrow> jsval option"
  jsonStringify :: "jsval \<Rightarrow> jsval option"
  toStr :: "jsval \<Rightarrow> string"
  codeUnits :: "string \<Rightarrow> string list"
  newURL :: "string \<Rightarrow> string option"
  atob :: "string \<Rightarrow> string option"
  toLowerCase :: "string \<Rightarrow> string"
  trim :: "string \<Rightarrow> string"
  dateParse :: "string \<Rightarrow> int option"
  aesEncrypt :: "jsval \<Rightarrow> string \<Rightarrow> string option"
  aesDecrypt :: "jsval \<Rightarrow> string \<Rightarrow> string option"
  utf8Stringify :: "string \<Rightarrow> string option"
  typeErrorMessage :: "jsval \<Rightarrow> string \<Rightarrow> string"

text \<open>The text a built-in sees when it is given the value \<open>v\<close>.\<close>

definition as_text :: "engine \<Rightarrow> jsval \<Rightarrow> string" where
  "as_text E v = (case v of JStr s \<Rightarrow> s | _ \<Rightarrow> toStr E v)"

text \<open>The same text, or \<open>None\<close> when the conversion throws.\<close>

definition to_text :: "engine \<Rightarrow> jsval \<Rightarrow> string option" where
  "to_text E v = (if stringifiable v then Some (as_text E v) else None)"

definition conversion_error :: "engine \<Rightarrow> jsval \<Rightarrow> js_error" where
  "conversion_error E v = TypeError (typeErrorMessage E v ''toString'')"

section \<open>Percent-encoding\<close>

definition hexval :: "char \<Rightarrow> nat option" where
  "hexval c =
     (let n = (of_char c :: nat) in
      if 48 \<le> n \<and> n \<le> 57 then Some (n - 48)
      else if 65 \<le> n \<and> n \<le> 70 then Some (n - 55)
      else if 97 \<le> n \<and> n \<le> 102 then Some (n - 87)
      else None)"

text \<open>\<^verbatim>\<open>s.replace(/\+/g, '%20')\<close>\<close>

definition replacePlus :: "string \<Rightarrow> string" where
  "replacePlus s = concat (map (\<lambda>c. if c = CHR ''+'' then ''%20'' else [c]) s)"

text \<open>
  The percent-decoding of the URL standard, used by \<^verbatim>\<open>URLSearchParams\<close>: a percent sign
  that is not followed by two hexadecimal digits stays as it is.
\<close>

fun percent_decode :: "string \<Rightarrow> string" where
  "percent_decode (p # a # b # cs) =
     (if p = CHR ''%'' then
        (case (hexval a, hexval b) of
           (Some x, Some y) \<Rightarrow> char_of (16 * x + y) # percent_decode cs
         | _ \<Rightarrow> p # percent_decode (a # b # cs))
      else p # percent_decode (a # b # cs))"
| "percent_decode cs = cs"

text \<open>Splitting a string at every occurrence, and at the first occurrence, of a character.\<close>

fun split_all :: "char \<Rightarrow> string \<Rightarrow> string list" where
  "split_all d [] = [[]]"
| "split_all d (c # cs) =
     (if c = d then [] # split_all d cs
      else (case split_all d cs of [] \<Rightarrow> [[c]] | w # ws \<Rightarrow> (c # w) # ws))"

fun split_first :: "char \<Rightarrow> string \<Rightarrow> string \<times> string" where
  "split_first d [] = ([], [])"
| "split_first d (c # cs) =
     (if c = d then ([], cs) else (case split_first d cs of (k, v) \<Rightarrow> (c # k, v)))"

text \<open>
  The \<^verbatim>\<open>application/x-www-form-urlencoded\<close> parser behind \<^verbatim>\<open>url.searchParams\<close>: the query
  is split at \<^verbatim>\<open>&\<close>, each non-empty piece at its first \<^verbatim>\<open>=\<close>, a \<^verbatim>\<open>+\<close> becomes a space and
  both sides are percent-decoded. The replacement of ill-formed UTF-8 by U+FFFD is not
  modelled.
\<close>

definition plus_to_space :: "string \<Rightarrow> string" where
  "plus_to_space s = map (\<lambda>c. if c = CHR ''+'' then CHR '' '' else c) s"

definition searchParams :: "string \<Rightarrow> (string \<times> string) list" where
  "searchParams q =
     map (\<lambda>piece. case split_first (CHR ''='') piece of
                     (k, v) \<Rightarrow> (percent_decode (plus_to_space k), percent_decode (plus_to_space v)))
         (filter (\<lambda>piece. piece \<noteq> []) (split_all (CHR ''&'') q))"

text \<open>\<^verbatim>\<open>url.searchParams.get(name)\<close>: the first value of that name, or \<^verbatim>\<open>null\<close>.\<close>

definition searchParams_get :: "string \<Rightarrow> string \<Rightarrow> jsval" where
  "searchParams_get q name = (case map_of (searchParams q) name of None \<Rightarrow> JNull | Some v \<Rightarrow> JStr v)"

text \<open>
  \<^verbatim>\<open>decodeURIComponent\<close>: every percent sign must start an escape of two hexadecimal
  digits, and the escaped octets must be well-formed UTF-8; otherwise it throws a URIError.
\<close>

datatype token = Lit char | Esc nat

fun tokens :: "string \<Rightarrow> token list option" where
  "tokens [] = Some []"
| "tokens (c # cs) =
     (if c = CHR ''%'' then
        (case cs of
           a # b # rest \<Rightarrow>
             (case (hexval a, hexval b) of
                (Some x, Some y) \<Rightarrow> map_option ((#) (Esc (16 * x + y))) (tokens rest)
              | _ \<Rightarrow> None)
         | _ \<Rightarrow> None)
      else map_option ((#) (Lit c)) (tokens cs))"

definition cont :: "nat \<Rightarrow> bool" where
  "cont b = (128 \<le> b \<and> b < 192)"

fun utf8_ok :: "token list \<Rightarrow> bool" where
  "utf8_ok [] = True"
| "utf8_ok (Lit c # ts) = utf8_ok ts"
| "utf8_ok (Esc b # ts) =
     (if b < 128 then utf8_ok ts
      else if 194 \<le> b \<and> b < 224 then
        (case ts of Esc c1 # r \<Rightarrow> cont c1 \<and> utf8_ok r | _ \<Rightarrow> False)
      else if 224 \<le> b \<and> b < 240 then
        (case ts of
           Esc c1 # Esc c2 # r \<Rightarrow>
             cont c1 \<and> cont c2 \<and> (b = 224 \<longrightarrow> 160 \<le> c1) \<and> (b = 237 \<longrightarrow> c1 < 160) \<and> utf8_ok r
         | _ \<Rightarrow> False)
      else if 240 \<le> b \<and> b < 245 then
        (case ts of
           Esc c1 # Esc c2 # Esc c3 # r \<Rightarrow>
             cont c1 \<and> cont c2 \<and> cont c3 \<and> (b = 240 \<longrightarrow> 144 \<le> c1) \<and> (b = 244 \<longrightarrow> c1 < 144)
             \<and> utf8_ok r
         | _ \<Rightarrow> False)
      else False)"

fun token_char :: "token \<Rightarrow> char" where
  "token_char (Lit c) = c"
| "token_char (Esc b) = char_of b"

definition decodeURIComponent :: "string \<Rightarrow> string option" where
  "decodeURIComponent s =
     (case tokens s of
        None \<Rightarrow> None
      | Some ts \<Rightarrow> if utf8_ok ts then Some (map token_char ts) else None)"

section \<open>QRPayloadParser: parseQRData\<close>

text \<open>
  \<^verbatim>\<open>input?.text ?? input?.data ?? String(input ?? '')\<close>, the normalisation of an input that
  is not a string. It stands before the first \<^verbatim>\<open>try\<close>, so an exception of \<^verbatim>\<open>String\<close>
  leaves \<^verbatim>\<open>parseQRData\<close>.
\<close>

definition normalize :: "engine \<Rightarrow> jsval \<Rightarrow> js_error + jsval" where
  "normalize E input =
     (case input of
        JStr s \<Rightarrow> Inr input
      | _ \<Rightarrow>
          if \<not> nullish (opt_prop input ''text'') then Inr (opt_prop input ''text'')
          else if \<not> nullish (opt_prop input ''data'') then Inr (opt_prop input ''data'')
          else if nullish input then Inr (JStr [])
          else if stringifiable input then Inr (JStr (toStr E input))
          else Inl (conversion_error E input))"

text \<open>
  \<^verbatim>\<open>get('data') || get('payload') || get('q') || get('p')\<close>: the first non-empty value, or
  else the last operand.
\<close>

definition url_payload :: "string \<Rightarrow> jsval" where
  "url_payload q =
     (if truthy (searchParams_get q ''data'') then searchParams_get q ''data''
      else if truthy (searchParams_get q ''payload'') then searchParams_get q ''payload''
      else if truthy (searchParams_get q ''q'') then searchParams_get q ''q''
      else searchParams_get q ''p'')"

text \<open>
  The first \<^verbatim>\<open>try\<close> block. It returns the parsed payload (\<open>Inl\<close>), or the input the later
  strategies go on with (\<open>Inr\<close>): the decoded parameter when it was not JSON, the input
  unchanged when it converts to no text, is no URL, has no payload parameter, or the
  decoding threw.
\<close>

definition try_url :: "engine \<Rightarrow> jsval \<Rightarrow> jsval + jsval" where
  "try_url E input =
     (case to_text E input of
        None \<Rightarrow> Inr input
      | Some url \<Rightarrow>
          (case newURL E url of
             None \<Rightarrow> Inr input
           | Some q \<Rightarrow>
               (case url_payload q of
                  JStr payload \<Rightarrow>
                    if payload = [] then Inr input
                    else
                      (case decodeURIComponent (replacePlus payload) of
                         None \<Rightarrow> Inr input
                       | Some decoded \<Rightarrow>
                           (case jsonParse E decoded of
                              Some v \<Rightarrow> Inl v
                            | None \<Rightarrow> Inr (JStr decoded)))
                | _ \<Rightarrow> Inr input)))"

text \<open>The three later strategies, each in its own \<^verbatim>\<open>try\<close>, and the final \<^verbatim>\<open>throw\<close>.\<close>

definition try_json :: "engine \<Rightarrow> jsval \<Rightarrow> jsval option" where
  "try_json E input =
     (case to_text E input of None \<Rightarrow> None | Some s \<Rightarrow> jsonParse E s)"

definition try_urldecoded :: "engine \<Rightarrow> jsval \<Rightarrow> jsval option" where
  "try_urldecoded E input =
     (case input of
        JStr s \<Rightarrow>
          (case decodeURIComponent (replacePlus s) of
             None \<Rightarrow> None
           | Some decoded \<Rightarrow> jsonParse E decoded)
      | _ \<Rightarrow> None)"

definition try_base64 :: "engine \<Rightarrow> jsval \<Rightarrow> jsval option" where
  "try_base64 E input =
     (case to_text E input of
        None \<Rightarrow> None
      | Some s \<Rightarrow>
          (case atob E s of
             None \<Rightarrow> None
           | Some decoded \<Rightarrow> jsonParse E decoded))"

definition parse_failure :: js_error where
  "parse_failure = Error ''Unable to parse QR data as JSON''"

definition parseQRData :: "engine \<Rightarrow> jsval \<Rightarrow> js_error + jsval" where
  "parseQRData E input0 =
     (case normalize E input0 of
        Inl e \<Rightarrow> Inl e
      | Inr normalized \<Rightarrow>
          (case try_url E normalized of
             Inl v \<Rightarrow> Inr v
           | Inr input \<Rightarrow>
               (case try_json E input of
                  Some v \<Rightarrow> Inr v
                | None \<Rightarrow>
                    (case try_urldecoded E input of
                       Some v \<Rightarrow> Inr v
                     | None \<Rightarrow>
                         (case try_base64 E input of
                            Some v \<Rightarrow> Inr v
                          | None \<Rightarrow> Inl parse_failure)))))"

section \<open>VerificationMatcher: validateQRData\<close>

subsection \<open>The five checks\<close>

text \<open>
  \<^verbatim>\<open>v.toLowerCase().trim()\<close>: a string has the method; on \<^verbatim>\<open>undefined\<close> and \<^verbatim>\<open>null\<close>
  the property read throws, and on every other value \<^verbatim>\<open>toLowerCase\<close> is not a function.
\<close>

definition lower_trim :: "engine \<Rightarrow> jsval \<Rightarrow> js_error + string" where
  "lower_trim E v =
     (case v of
        JStr s \<Rightarrow> Inr (trim E (toLowerCase E s))
      | _ \<Rightarrow> Inl (TypeError (typeErrorMessage E v ''toLowerCase'')))"

text \<open>
  \<^verbatim>\<open>parsedData.name?.toLowerCase().trim()\<close>: reading \<^verbatim>\<open>name\<close> throws when the payload itself
  is \<^verbatim>\<open>null\<close>; an absent or \<^verbatim>\<open>null\<close> name ends the chain with \<^verbatim>\<open>undefined\<close>.
\<close>

definition payload_name :: "engine \<Rightarrow> jsval \<Rightarrow> js_error + jsval" where
  "payload_name E parsedData =
     (case get_prop (typeErrorMessage E) parsedData ''name'' of
        Inl e \<Rightarrow> Inl e
      | Inr n \<Rightarrow>
          if nullish n then Inr JUndefined
          else (case lower_trim E n of Inl e \<Rightarrow> Inl e | Inr s \<Rightarrow> Inr (JStr s)))"

text \<open>The dob comparison, the same expression in the match and in the validation.\<close>

definition dob_check :: "jsval \<Rightarrow> jsval \<Rightarrow> bool" where
  "dob_check sdob pdob =
     (strict_eq sdob pdob
      \<or> (sdob = JStr ''N/A'' \<and> \<not> truthy pdob)
      \<or> (sdob = JStr ''Not found'' \<and> \<not> truthy pdob)
      \<or> (\<not> truthy pdob \<and> (sdob = JStr ''N/A'' \<or> sdob = JStr ''Not found'')))"

text \<open>
  The five lines \<^verbatim>\<open>console.log('... match:', m, `"${submission.f}" vs "${parsedData.f}"`)\<close>
  of the callback convert both sides of each check to text, in this order; the first
  value that does not convert throws.
\<close>

definition logged_values :: "obj \<Rightarrow> jsval \<Rightarrow> jsval list" where
  "logged_values submission parsedData =
     [field submission ''name'', opt_prop parsedData ''name'',
      field submission ''dob'', opt_prop parsedData ''dob'',
      field submission ''aadhaar'', opt_prop parsedData ''aadhaar'',
      field submission ''mobile'', opt_prop parsedData ''mobile'',
      field submission ''username'', opt_prop parsedData ''username'']"

definition log_templates :: "engine \<Rightarrow> jsval list \<Rightarrow> js_error option" where
  "log_templates E vs =
     (case filter (\<lambda>v. \<not> stringifiable v) vs of
        [] \<Rightarrow> None
      | v # rest \<Rightarrow> Some (conversion_error E v))"

text \<open>
  The callback of \<^verbatim>\<open>submissions.find\<close>: the array
  \<^verbatim>\<open>[nameMatch, dobMatch, aadhaarMatch, mobileMatch, usernameMatch]\<close>. The submission's name is
  evaluated first, then the payload's. Once \<^verbatim>\<open>parsedData.name\<close> has been read the payload is
  not \<^verbatim>\<open>null\<close>, and its other properties read without throwing. The checks are logged
  before they are counted.
\<close>

definition match_checks :: "engine \<Rightarrow> obj \<Rightarrow> jsval \<Rightarrow> js_error + bool list" where
  "match_checks E submission parsedData =
     (case lower_trim E (field submission ''name'') of
        Inl e \<Rightarrow> Inl e
      | Inr sname \<Rightarrow>
          (case payload_name E parsedData of
             Inl e \<Rightarrow> Inl e
           | Inr pname \<Rightarrow>
               (case log_templates E (logged_values submission parsedData) of
                  Some e \<Rightarrow> Inl e
                | None \<Rightarrow>
                    Inr [strict_eq (JStr sname) pname,
                         dob_check (field submission ''dob'') (opt_prop parsedData ''dob''),
                         strict_eq (field submission ''aadhaar'') (opt_prop parsedData ''aadhaar''),
                         strict_eq (field submission ''mobile'') (opt_prop parsedData ''mobile''),
                         strict_eq (field submission ''username'') (opt_prop parsedData ''username'')])))"

text \<open>\<^verbatim>\<open>[...].filter(Boolean).length\<close>\<close>

definition matchCount :: "bool list \<Rightarrow> nat" where
  "matchCount checks = length (filter (\<lambda>b. b) checks)"

text \<open>
  \<^verbatim>\<open>submissions.find(callback)\<close> with \<^verbatim>\<open>matchCount >= 3\<close>: the first submission for which
  the callback returns true, \<^verbatim>\<open>undefined\<close> (\<open>None\<close>) when there is none; an exception of
  the callback ends the search.
\<close>

fun find_match :: "engine \<Rightarrow> jsval \<Rightarrow> obj list \<Rightarrow> js_error + obj option" where
  "find_match E parsedData [] = Inr None"
| "find_match E parsedData (submission # rest) =
     (case match_checks E submission parsedData of
        Inl e \<Rightarrow> Inl e
      | Inr checks \<Rightarrow>
          if 3 \<le> matchCount checks then Inr (Some submission)
          else find_match E parsedData rest)"

text \<open>
  The validation after the match:
  \<^verbatim>\<open>[nameValid, dobValid, aadhaarValid, mobileValid, usernameValid]\<close>, the payload's side
  evaluated first.
\<close>

definition valid_checks :: "engine \<Rightarrow> obj \<Rightarrow> jsval \<Rightarrow> js_error + bool list" where
  "valid_checks E matchingSubmission parsedData =
     (case payload_name E parsedData of
        Inl e \<Rightarrow> Inl e
      | Inr pname \<Rightarrow>
          (case lower_trim E (field matchingSubmission ''name'') of
             Inl e \<Rightarrow> Inl e
           | Inr sname \<Rightarrow>
               Inr [strict_eq pname (JStr sname),
                    dob_check (field matchingSubmission ''dob'') (opt_prop parsedData ''dob''),
                    strict_eq (opt_prop parsedData ''aadhaar'') (field matchingSubmission ''aadhaar''),
                    strict_eq (opt_prop parsedData ''mobile'') (field matchingSubmission ''mobile''),
                    strict_eq (opt_prop parsedData ''username'') (field matchingSubmission ''username'')]))"

subsection \<open>Expiry\<close>

text \<open>
  \<^verbatim>\<open>new Date(v)\<close> as its time value in milliseconds, \<open>None\<close> for an invalid date:
  \<^verbatim>\<open>undefined\<close> gives \<^verbatim>\<open>NaN\<close>, \<^verbatim>\<open>null\<close> the epoch, a boolean 0 or 1, a number is clipped
  to the range of time values and truncated, a string is parsed, an object or array is
  converted to a string and parsed. The constructor throws for an object or array that
  converts to no primitive.
\<close>

definition timeClip :: "rat \<Rightarrow> int option" where
  "timeClip n =
     (if \<bar>n\<bar> > 8640000000000000 then None
      else Some (if 0 \<le> n then \<lfloor>n\<rfloor> else \<lceil>n\<rceil>))"

definition newDate :: "engine \<Rightarrow> jsval \<Rightarrow> js_error + int option" where
  "newDate E v =
     (case v of
        JUndefined \<Rightarrow> Inr None
      | JNull \<Rightarrow> Inr (Some 0)
      | JBool b \<Rightarrow> Inr (Some (if b then 1 else 0))
      | JNum n \<Rightarrow> Inr (timeClip n)
      | JStr s \<Rightarrow> Inr (dateParse E s)
      | _ \<Rightarrow>
          if stringifiable v then Inr (dateParse E (toStr E v))
          else Inl (conversion_error E v))"

text \<open>
  \<^verbatim>\<open>hoursDiff = (now - verifiedAt) / (1000 * 60 * 60); isExpired = hoursDiff > 24\<close>.
  With an invalid date the difference is \<^verbatim>\<open>NaN\<close> and the comparison is false. The
  difference of two time values is an integer that a double holds exactly, and its
  quotient, rounded, is above 24 exactly when the exact quotient is.
\<close>

definition hoursDiff :: "int \<Rightarrow> int \<Rightarrow> rat" where
  "hoursDiff now verifiedAt = of_int (now - verifiedAt) / (1000 * 60 * 60)"

definition isExpired :: "int \<Rightarrow> int option \<Rightarrow> bool" where
  "isExpired now verifiedAt =
     (case verifiedAt of None \<Rightarrow> False | Some t \<Rightarrow> hoursDiff now t > 24)"

subsection \<open>The verdict\<close>

record attr_detail =
  verified :: bool
  scanned :: jsval
  stored :: jsval
  requested :: jsval

text \<open>
  The \<^verbatim>\<open>attributeVerification\<close> property: left out of the object, \<^verbatim>\<open>null\<close>, or the object
  of the per-attribute entries in the order they are written.
\<close>

datatype attr_verification =
    AVAbsent
  | AVNull
  | AVEntries "(string \<times> attr_detail) list"

record verdict =
  isValid :: bool
  submission :: "obj option"
  scannedData :: jsval
  message :: string
  attributeVerification :: attr_verification

text \<open>\<^verbatim>\<open>parsedData.verificationRequested?.attr || false\<close>\<close>

definition requested_flag :: "jsval \<Rightarrow> string \<Rightarrow> jsval" where
  "requested_flag parsedData attr =
     (let r = (if nullish (opt_prop parsedData ''verificationRequested'') then JUndefined
               else opt_prop (opt_prop parsedData ''verificationRequested'') attr)
      in if truthy r then r else JBool False)"

definition expired_verdict :: "obj \<Rightarrow> jsval \<Rightarrow> verdict" where
  "expired_verdict matchingSubmission parsedData =
     \<lparr> isValid = False,
       submission = Some matchingSubmission,
       scannedData = parsedData,
       message = ''QR code has expired. Please generate a new QR code for verification.'',
       attributeVerification = AVNull \<rparr>"

definition data_verdict :: "obj \<Rightarrow> jsval \<Rightarrow> bool list \<Rightarrow> verdict" where
  "data_verdict matchingSubmission parsedData checks =
     (let nameValid = checks ! 0; dobValid = checks ! 1; aadhaarValid = checks ! 2;
          mobileValid = checks ! 3; usernameValid = checks ! 4;
          isDataValid = (nameValid \<and> dobValid \<and> aadhaarValid \<and> mobileValid \<and> usernameValid)
      in
      \<lparr> isValid = isDataValid,
        submission = Some matchingSubmission,
        scannedData = parsedData,
        message =
          (if isDataValid
           then ''QR code data matches the submission records. User identity verified!''
           else ''QR code found matching user but some data discrepancies detected.''),
        attributeVerification = AVEntries
          [(''name'',
            \<lparr> verified = nameValid,
              scanned = opt_prop parsedData ''name'',
              stored = field matchingSubmission ''name'',
              requested = requested_flag parsedData ''name'' \<rparr>),
           (''age'',
            \<lparr> verified = dobValid,
              scanned = opt_prop parsedData ''dob'',
              stored = field matchingSubmission ''dob'',
              requested = requested_flag parsedData ''age'' \<rparr>),
           (''mobile'',
            \<lparr> verified = mobileValid,
              scanned = opt_prop parsedData ''mobile'',
              stored = field matchingSubmission ''mobile'',
              requested = requested_flag parsedData ''mobile'' \<rparr>),
           (''aadhaar'',
            \<lparr> verified = aadhaarValid,
              scanned = opt_prop parsedData ''aadhaar'',
              stored = field matchingSubmission ''aadhaar'',
              requested = requested_flag parsedData ''aadhaar'' \<rparr>),
           (''address'',
            \<lparr> verified = strict_eq (opt_prop parsedData ''address'')
                                   (field matchingSubmission ''address''),
              scanned = opt_prop parsedData ''address'',
              stored = field matchingSubmission ''address'',
              requested = requested_flag parsedData ''address'' \<rparr>)] \<rparr>)"

definition no_match_verdict :: "jsval \<Rightarrow> verdict" where
  "no_match_verdict parsedData =
     \<lparr> isValid = False,
       submission = None,
       scannedData = parsedData,
       message = ''No matching submission found for this QR code data.'',
       attributeVerification = AVAbsent \<rparr>"

text \<open>The \<^verbatim>\<open>catch\<close> block.\<close>

definition errorMessage :: "js_error \<Rightarrow> string" where
  "errorMessage error =
     ''Invalid QR code format. '' @
     (if str_includes (error_message error) ''Unexpected token''
      then ''The QR code does not contain valid JSON data.''
      else if str_includes (error_message error) ''No data parameter''
      then ''The QR code URL does not contain a data parameter.''
      else ''Parse error: '' @ error_message error)"

definition error_verdict :: "js_error \<Rightarrow> verdict" where
  "error_verdict error =
     \<lparr> isValid = False,
       submission = None,
       scannedData = JNull,
       message = errorMessage error,
       attributeVerification = AVAbsent \<rparr>"

text \<open>
  \<^verbatim>\<open>validateQRData(qrData)\<close>, with the component's \<^verbatim>\<open>submissions\<close> state and the clock
  read by \<^verbatim>\<open>new Date()\<close> as arguments.
\<close>

definition validateQRData :: "engine \<Rightarrow> int \<Rightarrow> obj list \<Rightarrow> jsval \<Rightarrow> verdict" where
  "validateQRData E now submissions qrData =
     (case parseQRData E qrData of
        Inl e \<Rightarrow> error_verdict e
      | Inr parsedData \<Rightarrow>
          (case find_match E parsedData submissions of
             Inl e \<Rightarrow> error_verdict e
           | Inr None \<Rightarrow> no_match_verdict parsedData
           | Inr (Some matchingSubmission) \<Rightarrow>
               (case newDate E (opt_prop parsedData ''verifiedAt'') of
                  Inl e \<Rightarrow> error_verdict e
                | Inr verifiedAt \<Rightarrow>
                    if isExpired now verifiedAt
                    then expired_verdict matchingSubmission parsedData
                    else
                      (case valid_checks E matchingSubmission parsedData of
                         Inl e \<Rightarrow> error_verdict e
                       | Inr checks \<Rightarrow>
                           data_verdict matchingSubmission parsedData checks))))"

text \<open>
  What the dialog shows of a verdict:
  \<^verbatim>\<open>Object.entries(attributeVerification).filter(([, details]) => details.requested)\<close>,
  rendered only when \<^verbatim>\<open>attributeVerification\<close> is truthy.
\<close>

definition displayedAttributes :: "verdict \<Rightarrow> (string \<times> attr_detail) list" where
  "displayedAttributes v =
     (case attributeVerification v of
        AVEntries entries \<Rightarrow> filter (\<lambda>(attribute, details). truthy (requested details)) entries
      | _ \<Rightarrow> [])"

subsection \<open>handleQRScan\<close>

text \<open>
  The effects of one scan: the camera error set, the verdict stored by
  \<^verbatim>\<open>setQrValidationResult\<close>, and the call
  \<^verbatim>\<open>submissionStore.updateSubmissionStatus(id, 'verified')\<close> when it is made. The raw text
  kept for debugging is left out.
\<close>

record scan_effects =
  cameraError :: "string option"
  qrValidationResult :: "verdict option"
  statusUpdate :: "(jsval \<times> string) option"

text \<open>
  \<^verbatim>\<open>typeof data === 'string' ? data : (data?.text ?? data?.data ?? '')\<close>, where \<^verbatim>\<open>data\<close>
  is already known to be truthy.
\<close>

definition scan_content :: "jsval \<Rightarrow> jsval" where
  "scan_content data =
     (case data of
        JStr s \<Rightarrow> data
      | _ \<Rightarrow>
          if \<not> nullish (opt_prop data ''text'') then opt_prop data ''text''
          else if \<not> nullish (opt_prop data ''data'') then opt_prop data ''data''
          else JStr [])"

definition handleQRScan :: "engine \<Rightarrow> int \<Rightarrow> obj list \<Rightarrow> jsval \<Rightarrow> scan_effects" where
  "handleQRScan E now submissions data =
     (if \<not> truthy data
      then \<lparr> cameraError = None, qrValidationResult = None, statusUpdate = None \<rparr>
      else if \<not> truthy (scan_content data)
      then \<lparr> cameraError = Some ''Invalid QR: unreadable content.'',
             qrValidationResult = None, statusUpdate = None \<rparr>
      else
        let validationResult = validateQRData E now submissions (scan_content data)
        in \<lparr> cameraError = None,
             qrValidationResult = Some validationResult,
             statusUpdate =
               (case submission validationResult of
                  Some s \<Rightarrow>
                    if isValid validationResult then Some (field s ''id'', ''verified'')
                    else None
                | None \<Rightarrow> None) \<rparr>)"

section \<open>SubmissionCodec and SubmissionQueue\<close>

definition ENCRYPTION_KEY :: string where
  "ENCRYPTION_KEY = ''secure-digital-wallet-2024''"

text \<open>\<^verbatim>\<open>encryptSubmissionData\<close>: \<open>None\<close> is the \<^verbatim>\<open>null\<close> of the \<^verbatim>\<open>catch\<close> block.\<close>

definition encryptSubmissionData :: "engine \<Rightarrow> jsval \<Rightarrow> string option" where
  "encryptSubmissionData E data =
     (case jsonStringify E data of
        None \<Rightarrow> None
      | Some jsonString \<Rightarrow> aesEncrypt E jsonString ENCRYPTION_KEY)"

text \<open>\<^verbatim>\<open>decryptSubmissionData\<close>: every exception becomes \<^verbatim>\<open>null\<close>.\<close>

definition decryptSubmissionData :: "engine \<Rightarrow> jsval \<Rightarrow> jsval" where
  "decryptSubmissionData E encryptedData =
     (case aesDecrypt E encryptedData ENCRYPTION_KEY of
        None \<Rightarrow> JNull
      | Some decrypted \<Rightarrow>
          (case utf8Stringify E decrypted of
             None \<Rightarrow> JNull
           | Some jsonString \<Rightarrow>
               (case jsonParse E jsonString of None \<Rightarrow> JNull | Some v \<Rightarrow> v)))"

text \<open>
  The keys of an object are enumerated with the array indices first, in ascending order,
  and the other keys after them in the order of their creation. An array index is the
  decimal numeral, without a leading zero, of a number below \<open>2\<^sup>3\<^sup>2 - 1\<close>.
\<close>

definition digit :: "char \<Rightarrow> int option" where
  "digit c =
     (let n = (of_char c :: int) in if 48 \<le> n \<and> n \<le> 57 then Some (n - 48) else None)"

fun digits_val :: "string \<Rightarrow> int \<Rightarrow> int option" where
  "digits_val [] acc = Some acc"
| "digits_val (c # cs) acc =
     (case digit c of None \<Rightarrow> None | Some d \<Rightarrow> digits_val cs (10 * acc + d))"

definition index_of :: "string \<Rightarrow> int option" where
  "index_of k =
     (case k of
        [] \<Rightarrow> None
      | c # cs \<Rightarrow>
          if c = CHR ''0'' \<and> cs \<noteq> [] then None
          else
            (case digits_val k 0 of
               None \<Rightarrow> None
             | Some n \<Rightarrow> if n < 4294967295 then Some n else None))"

definition key_before :: "string \<Rightarrow> string \<Rightarrow> bool" where
  "key_before k k' =
     (case index_of k of
        None \<Rightarrow> False
      | Some i \<Rightarrow> (case index_of k' of None \<Rightarrow> True | Some j \<Rightarrow> i < j))"

text \<open>Writing a property: an existing one keeps its place, a new one takes its place in
  the enumeration.\<close>

fun replace_key :: "obj \<Rightarrow> string \<Rightarrow> jsval \<Rightarrow> obj" where
  "replace_key [] k v = []"
| "replace_key ((k', v') # kvs) k v =
     (if k' = k then (k, v) # kvs else (k', v') # replace_key kvs k v)"

fun insert_key :: "obj \<Rightarrow> string \<Rightarrow> jsval \<Rightarrow> obj" where
  "insert_key [] k v = [(k, v)]"
| "insert_key ((k', v') # kvs) k v =
     (if key_before k k' then (k, v) # (k', v') # kvs else (k', v') # insert_key kvs k v)"

definition set_prop :: "obj \<Rightarrow> string \<Rightarrow> jsval \<Rightarrow> obj" where
  "set_prop kvs k v =
     (if map_of kvs k = None then insert_key kvs k v else replace_key kvs k v)"

text \<open>
  The decimal numeral of a number, which is the key of an index. The first argument of
  \<open>dec_digits\<close> bounds the number of digits.
\<close>

fun dec_digits :: "nat \<Rightarrow> nat \<Rightarrow> string" where
  "dec_digits 0 n = []"
| "dec_digits (Suc fuel) n =
     (if n < 10 then [char_of (48 + n)]
      else dec_digits fuel (n div 10) @ [char_of (48 + n mod 10)])"

definition dec_str :: "nat \<Rightarrow> string" where
  "dec_str n = dec_digits (Suc n) n"

text \<open>
  The own enumerable properties that \<^verbatim>\<open>{...v}\<close> copies: those of an object, the indexed
  elements of an array or the indexed characters of a string, none of another primitive.
\<close>

definition spread_props :: "engine \<Rightarrow> jsval \<Rightarrow> obj" where
  "spread_props E v =
     (case v of
        JObj kvs \<Rightarrow> kvs
      | JArr xs \<Rightarrow> zip (map dec_str [0..<length xs]) xs
      | JStr s \<Rightarrow> zip (map dec_str [0..<length (codeUnits E s)]) (map JStr (codeUnits E s))
      | _ \<Rightarrow> [])"

text \<open>
  \<^verbatim>\<open>{ id: submission.id, ...decryptedData, submittedAt: submission.submittedAt,
     status: submission.status || 'pending' }\<close>, for the stored document \<open>doc\<close>.
\<close>

definition decorate :: "engine \<Rightarrow> obj \<Rightarrow> jsval \<Rightarrow> obj" where
  "decorate E doc decryptedData =
     set_prop
       (set_prop
          (fold (\<lambda>(k, v) acc. set_prop acc k v) (spread_props E decryptedData)
                [(''id'', field doc ''id'')])
          ''submittedAt'' (field doc ''submittedAt''))
       ''status''
       (if truthy (field doc ''status'') then field doc ''status''
        else JStr ''pending'')"

text \<open>
  The log of the first raw document, before the documents are decrypted:
  \<^verbatim>\<open>submissions[0].encryptedData?.substring(0, 50)\<close> throws when the value is neither
  absent nor a string.
\<close>

definition first_document_log :: "engine \<Rightarrow> obj list \<Rightarrow> js_error option" where
  "first_document_log E submissions =
     (case submissions of
        [] \<Rightarrow> None
      | first # rest \<Rightarrow>
          (case field first ''encryptedData'' of
             JUndefined \<Rightarrow> None
           | JNull \<Rightarrow> None
           | JStr s \<Rightarrow> None
           | v \<Rightarrow> Some (TypeError (typeErrorMessage E v ''substring''))))"

text \<open>
  The callback of \<^verbatim>\<open>submissions.map\<close> in \<^verbatim>\<open>getSubmissions\<close>; \<open>None\<close> is its \<^verbatim>\<open>null\<close>. A
  decrypted document is logged with \<^verbatim>\<open>`... ${submission.id}:`\<close>, which throws for an id
  that converts to no text.
\<close>

definition decrypt_entry :: "engine \<Rightarrow> obj \<Rightarrow> js_error + obj option" where
  "decrypt_entry E doc =
     (if \<not> truthy (field doc ''encryptedData'') then Inr None
      else
        let decryptedData = decryptSubmissionData E (field doc ''encryptedData'')
        in if \<not> truthy decryptedData then Inr None
           else if \<not> stringifiable (field doc ''id'')
           then Inl (conversion_error E (field doc ''id''))
           else Inr (Some (decorate E doc decryptedData)))"

text \<open>\<^verbatim>\<open>submissions.map(callback)\<close>: an exception of the callback ends the mapping.\<close>

fun map_entries :: "engine \<Rightarrow> obj list \<Rightarrow> js_error + obj option list" where
  "map_entries E [] = Inr []"
| "map_entries E (doc # rest) =
     (case decrypt_entry E doc of
        Inl e \<Rightarrow> Inl e
      | Inr entry \<Rightarrow>
          (case map_entries E rest of
             Inl e \<Rightarrow> Inl e
           | Inr entries \<Rightarrow> Inr (entry # entries)))"

text \<open>
  \<^verbatim>\<open>getSubmissions\<close>, on the list of documents that
  \<^verbatim>\<open>firebaseService.getAllSubmissions()\<close> returned:
  \<^verbatim>\<open>submissions.map(...).filter(submission => submission !== null)\<close>. \<open>Inl\<close> is the
  rejection of the whole read.
\<close>

definition getSubmissions :: "engine \<Rightarrow> obj list \<Rightarrow> js_error + obj list" where
  "getSubmissions E submissions =
     (case first_document_log E submissions of
        Some e \<Rightarrow> Inl e
      | None \<Rightarrow>
          (case map_entries E submissions of
             Inl e \<Rightarrow> Inl e
           | Inr entries \<Rightarrow> Inr (map the (filter (\<lambda>entry. entry \<noteq> None) entries))))"

section \<open>The claims in the model's terms\<close>

text \<open>
  A submission reaches the threshold for a payload when the callback of the search runs
  on it without an exception, in the checks or in their logging, and at least three of
  the five checks are true; it stays below when the callback runs without an exception
  and fewer are true.
\<close>

definition at_threshold :: "engine \<Rightarrow> obj \<Rightarrow> jsval \<Rightarrow> bool" where
  "at_threshold E s p =
     (case match_checks E s p of Inl e \<Rightarrow> False | Inr checks \<Rightarrow> 3 \<le> matchCount checks)"

definition below_threshold :: "engine \<Rightarrow> obj \<Rightarrow> jsval \<Rightarrow> bool" where
  "below_threshold E s p =
     (case match_checks E s p of Inl e \<Rightarrow> False | Inr checks \<Rightarrow> matchCount checks < 3)"

text \<open>The names of the entries of a verdict's \<^verbatim>\<open>attributeVerification\<close>.\<close>

definition attribute_names :: "verdict \<Rightarrow> string list" where
  "attribute_names v =
     (case attributeVerification v of AVEntries entries \<Rightarrow> map fst entries | _ \<Rightarrow> [])"

definition attribute_entry :: "verdict \<Rightarrow> string \<Rightarrow> attr_detail option" where
  "attribute_entry v attr =
     (case attributeVerification v of AVEntries entries \<Rightarrow> map_of entries attr | _ \<Rightarrow> None)"

text \<open>
  What the codec needs of its libraries for a record \<open>R\<close>: the cipher decrypts, under the
  same passphrase, what it encrypted, to bytes that read back as the same text; it encrypts
  every text; and \<open>R\<close> serializes to a JSON text that parses back to \<open>R\<close>.
\<close>

definition cipher_round_trip :: "engine \<Rightarrow> bool" where
  "cipher_round_trip E =
     (\<forall>m k c. aesEncrypt E (JStr m) k = Some c \<longrightarrow>
        (\<exists>b. aesDecrypt E (JStr c) k = Some b \<and> utf8Stringify E b = Some m))"

definition cipher_total :: "engine \<Rightarrow> bool" where
  "cipher_total E = (\<forall>m k. aesEncrypt E (JStr m) k \<noteq> None)"

definition serializes :: "engine \<Rightarrow> jsval \<Rightarrow> bool" where
  "serializes E R =
     (case jsonStringify E R of
        Some (JStr text) \<Rightarrow> jsonParse E text = Some R
      | _ \<Rightarrow> False)"

text \<open>The stored submissions that \<^verbatim>\<open>getSubmissions\<close> keeps.\<close>

definition readable :: "engine \<Rightarrow> obj \<Rightarrow> bool" where
  "readable E doc =
     (truthy (field doc ''encryptedData'')
      \<and> truthy (decryptSubmissionData E (field doc ''encryptedData'')))"

text \<open>
  A stored submission of the shape that \<^verbatim>\<open>addSubmission\<close> writes and
  \<^verbatim>\<open>updateSubmissionStatus\<close> rewrites: \<^verbatim>\<open>encryptedData\<close> a string, or missing; an id that is
  no object; a status.
\<close>

definition stored_submission :: "obj \<Rightarrow> bool" where
  "stored_submission doc =
     ((case field doc ''encryptedData'' of
         JUndefined \<Rightarrow> True | JNull \<Rightarrow> True | JStr s \<Rightarrow> True | _ \<Rightarrow> False)
      \<and> (case field doc ''id'' of JObj kvs \<Rightarrow> False | JArr xs \<Rightarrow> False | _ \<Rightarrow> True)
      \<and> truthy (field doc ''status''))"

section \<open>An engine for the examples\<close>

text \<open>
  The examples are evaluated with ASCII case folding and trimming of spaces, a table of
  the JSON texts, URLs, base64 texts and dates they use, and a stand-in cipher that
  prefixes the passphrase.
\<close>

definition ascii_lower :: "string \<Rightarrow> string" where
  "ascii_lower s =
     map (\<lambda>c. let n = (of_char c :: nat) in if 65 \<le> n \<and> n \<le> 90 then char_of (n + 32) else c) s"

definition strip_spaces :: "string \<Rightarrow> string" where
  "strip_spaces s =
     rev (dropWhile (\<lambda>c. c = CHR '' '') (rev (dropWhile (\<lambda>c. c = CHR '' '') s)))"

definition name_A :: jsval where
  "name_A = JObj [(''name'', JStr ''A'')]"

definition jane_text :: string where
  \<open>jane_text = ''{"verifiedAt":"2024-01-01T00:00:00.000Z","username":"jane","name":"Jane Doe","dob":"N/A","mobile":"555","aadhaar":"123","verificationRequested":{"age":true}}''\<close>

definition jane_payload :: jsval where
  "jane_payload = JObj
     [(''verifiedAt'', JStr ''2024-01-01T00:00:00.000Z''),
      (''username'', JStr ''jane''),
      (''name'', JStr ''Jane Doe''),
      (''dob'', JStr ''N/A''),
      (''mobile'', JStr ''555''),
      (''aadhaar'', JStr ''123''),
      (''verificationRequested'', JObj [(''age'', JBool True)])]"

definition partial_text :: string where
  \<open>partial_text = ''{"verifiedAt":"2024-01-01T00:00:00.000Z","username":"jdoe","name":" JANE DOE","dob":"1990-01-01","mobile":"555","aadhaar":"123"}''\<close>

definition partial_payload :: jsval where
  "partial_payload = JObj
     [(''verifiedAt'', JStr ''2024-01-01T00:00:00.000Z''),
      (''username'', JStr ''jdoe''),
      (''name'', JStr '' JANE DOE''),
      (''dob'', JStr ''1990-01-01''),
      (''mobile'', JStr ''555''),
      (''aadhaar'', JStr ''123'')]"

definition undated_text :: string where
  \<open>undated_text = ''{"username":"jane","name":"Jane Doe","dob":"N/A","mobile":"555","aadhaar":"123"}''\<close>

definition undated_payload :: jsval where
  "undated_payload = JObj
     [(''username'', JStr ''jane''),
      (''name'', JStr ''Jane Doe''),
      (''dob'', JStr ''N/A''),
      (''mobile'', JStr ''555''),
      (''aadhaar'', JStr ''123'')]"

definition example_json :: "(string \<times> jsval) list" where
  \<open>example_json =
     [(''{"name":"A"}'', name_A),
      (''{"id":7,"name":"A"}'', JObj [(''id'', JNum 7), (''name'', JStr ''A'')]),
      (''false'', JBool False),
      (''{"mobile":" 91"}'', JObj [(''mobile'', JStr '' 91'')]),
      (''{"mobile":"+91"}'', JObj [(''mobile'', JStr ''+91'')]),
      (jane_text, jane_payload),
      (partial_text, partial_payload),
      (undated_text, undated_payload)]\<close>

definition example_engine :: engine where
  \<open>example_engine =
     \<lparr> jsonParse = map_of example_json,
       jsonStringify = (\<lambda>v. map_option JStr (map_of (map (\<lambda>(text, w). (w, text)) example_json) v)),
       toStr = (\<lambda>v. []),
       codeUnits = map (\<lambda>c. [c]),
       newURL = (\<lambda>s. if take 8 s = ''https://'' then Some (snd (split_first (CHR ''?'') s)) else None),
       atob = map_of [(''eyJuYW1lIjoiQSJ9'', ''{"name":"A"}'')],
       toLowerCase = ascii_lower,
       trim = strip_spaces,
       dateParse = map_of [(''2024-01-01T00:00:00.000Z'', 1704067200000)],
       aesEncrypt = (\<lambda>m k. case m of JStr text \<Rightarrow> Some (k @ text) | _ \<Rightarrow> None),
       aesDecrypt = (\<lambda>c k. case c of
                              JStr text \<Rightarrow> if take (length k) text = k
                                             then Some (drop (length k) text) else None
                            | _ \<Rightarrow> None),
       utf8Stringify = Some,
       typeErrorMessage =
         (\<lambda>v k. if k = ''toString'' then ''Cannot convert object to primitive value''
                else if nullish v then ''Cannot read properties of undefined (reading '' @ k @ '')''
                else k @ '' is not a function'') \<rparr>\<close>

text \<open>Three decrypted submissions, the last without a name, and five stored documents.\<close>

definition jane :: obj where
  "jane =
     [(''id'', JNum 1700000000000),
      (''username'', JStr ''jane''),
      (''name'', JStr ''Jane Doe''),
      (''dob'', JStr ''N/A''),
      (''mobile'', JStr ''555''),
      (''aadhaar'', JStr ''123''),
      (''submittedAt'', JStr ''2023-11-14T22:13:20.000Z''),
      (''status'', JStr ''pending'')]"

definition john :: obj where
  "john =
     [(''id'', JNum 1695000000000),
      (''username'', JStr ''john''),
      (''name'', JStr ''John Roe''),
      (''dob'', JStr ''1985-05-05''),
      (''mobile'', JStr ''555''),
      (''aadhaar'', JStr ''456''),
      (''submittedAt'', JStr ''2023-09-18T01:20:00.000Z''),
      (''status'', JStr ''verified'')]"

definition nameless :: obj where
  "nameless =
     [(''id'', JNum 1690000000000),
      (''username'', JStr ''ghost''),
      (''submittedAt'', JStr ''2023-07-22T04:26:40.000Z''),
      (''status'', JStr ''pending'')]"

definition stored_A :: obj where
  \<open>stored_A =
     [(''id'', JNum 1700000000000),
      (''encryptedData'', JStr ''secure-digital-wallet-2024{"name":"A"}''),
      (''submittedAt'', JStr ''2023-11-14T22:13:20.000Z''),
      (''status'', JStr ''pending'')]\<close>

definition stored_corrupt :: obj where
  \<open>stored_corrupt =
     [(''id'', JNum 1690000000000),
      (''encryptedData'', JStr ''U2FsdGVkX1''),
      (''submittedAt'', JStr ''2023-07-22T04:26:40.000Z''),
      (''status'', JStr ''pending'')]\<close>

definition stored_false :: obj where
  \<open>stored_false =
     [(''id'', JNum 1691000000000),
      (''encryptedData'', JStr ''secure-digital-wallet-2024false''),
      (''submittedAt'', JStr ''2023-08-02T18:13:20.000Z''),
      (''status'', JStr ''pending'')]\<close>

definition stored_own_id :: obj where
  \<open>stored_own_id =
     [(''id'', JNum 1692000000000),
      (''encryptedData'', JStr ''secure-digital-wallet-2024{"id":7,"name":"A"}''),
      (''submittedAt'', JStr ''2023-08-14T08:00:00.000Z''),
      (''status'', JStr ''pending'')]\<close>

definition stored_number :: obj where
  \<open>stored_number =
     [(''id'', JNum 1693000000000),
      (''encryptedData'', JNum 12345),
      (''submittedAt'', JStr ''2023-08-25T21:46:40.000Z''),
      (''status'', JStr ''pending'')]\<close>

section \<open>The matcher\<close>

lemma strict_eq_sym: "strict_eq a b = strict_eq b a"
  by (cases a; cases b) auto

lemma lower_trim_not_string:
  "(\<forall>s. v \<noteq> JStr s) \<Longrightarrow> lower_trim E v = Inl (TypeError (typeErrorMessage E v ''toLowerCase''))"
  by (cases v) (simp_all add: lower_trim_def)

lemma match_checks_not_string:
  "(\<forall>s. field sub ''name'' \<noteq> JStr s) \<Longrightarrow>
   match_checks E sub p = Inl (TypeError (typeErrorMessage E (field sub ''name'') ''toLowerCase''))"
  by (simp add: match_checks_def lower_trim_not_string)

lemma valid_checks_eq: "match_checks E s p = Inr cs \<Longrightarrow> valid_checks E s p = Inr cs"
  by (auto simp: match_checks_def valid_checks_def strict_eq_sym split: sum.splits option.splits)

lemma match_checks_shape:
  "match_checks E s p = Inr cs \<Longrightarrow> \<exists>a b c d e. cs = [a, b, c, d, e]"
  by (auto simp: match_checks_def split: sum.splits option.splits)

lemma find_match_prefix:
  "\<forall>x\<in>set pre. below_threshold E x p \<Longrightarrow> find_match E p (pre @ rest) = find_match E p rest"
  by (induction pre) (auto simp: below_threshold_def split: sum.splits)

lemma find_match_Some_iff:
  "find_match E p subs = Inr (Some s) \<longleftrightarrow>
   (\<exists>pre post. subs = pre @ s # post \<and> (\<forall>x\<in>set pre. below_threshold E x p) \<and> at_threshold E s p)"
proof
  show "find_match E p subs = Inr (Some s) \<Longrightarrow>
    \<exists>pre post. subs = pre @ s # post \<and> (\<forall>x\<in>set pre. below_threshold E x p) \<and> at_threshold E s p"
  proof (induction subs)
    case Nil
    then show ?case by simp
  next
    case (Cons a subs)
    show ?case
    proof (cases "match_checks E a p")
      case (Inl e)
      with Cons.prems show ?thesis by simp
    next
      case (Inr cs)
      show ?thesis
      proof (cases "3 \<le> matchCount cs")
        case True
        with Inr Cons.prems have "a = s" by simp
        with Inr True have "a # subs = [] @ s # subs \<and> (\<forall>x\<in>set []. below_threshold E x p) \<and> at_threshold E s p"
          by (simp add: at_threshold_def)
        then show ?thesis by blast
      next
        case False
        with Inr Cons.prems have "find_match E p subs = Inr (Some s)" by simp
        from Cons.IH[OF this] obtain pre post where
          h: "subs = pre @ s # post" "\<forall>x\<in>set pre. below_threshold E x p" "at_threshold E s p"
          by blast
        from False Inr have "below_threshold E a p" by (simp add: below_threshold_def)
        with h have "a # subs = (a # pre) @ s # post \<and> (\<forall>x\<in>set (a # pre). below_threshold E x p) \<and> at_threshold E s p"
          by simp
        then show ?thesis by blast
      qed
    qed
  qed
next
  assume "\<exists>pre post. subs = pre @ s # post \<and> (\<forall>x\<in>set pre. below_threshold E x p) \<and> at_threshold E s p"
  then obtain pre post where
    h: "subs = pre @ s # post" "\<forall>x\<in>set pre. below_threshold E x p" "at_threshold E s p"
    by blast
  from h(3) have "find_match E p (s # post) = Inr (Some s)"
    by (auto simp: at_threshold_def split: sum.splits)
  with h(1,2) show "find_match E p subs = Inr (Some s)"
    by (simp add: find_match_prefix)
qed

lemma find_match_None_iff:
  "find_match E p subs = Inr None \<longleftrightarrow> (\<forall>x\<in>set subs. below_threshold E x p)"
  by (induction subs) (auto simp: below_threshold_def split: sum.splits)

lemma find_match_throws:
  "\<forall>x\<in>set pre. \<not> at_threshold E x p \<Longrightarrow> match_checks E bad p = Inl e \<Longrightarrow>
   \<exists>e'. find_match E p (pre @ bad # post) = Inl e'"
  by (induction pre) (auto simp: at_threshold_def split: sum.splits)

lemma find_match_at_threshold:
  "find_match E p subs = Inr (Some s) \<Longrightarrow> \<exists>cs. match_checks E s p = Inr cs \<and> 3 \<le> matchCount cs"
  by (induction subs) (auto split: sum.splits if_splits)

lemma error_verdict_fields:
  "\<not> isValid (error_verdict e)" "submission (error_verdict e) = None"
  "scannedData (error_verdict e) = JNull"
  "take 24 (message (error_verdict e)) = ''Invalid QR code format. ''"
  by (simp_all add: error_verdict_def errorMessage_def)

lemma newDate_converts: "stringifiable v \<Longrightarrow> \<exists>d. newDate E v = Inr d"
  by (cases v) (simp_all add: newDate_def)

lemma validate_found:
  assumes "parseQRData E qrData = Inr p" and "find_match E p subs = Inr (Some s)"
      and "newDate E (opt_prop p ''verifiedAt'') = Inr d"
  shows "\<exists>cs. match_checks E s p = Inr cs \<and> 3 \<le> matchCount cs \<and>
           validateQRData E now subs qrData =
             (if isExpired now d then expired_verdict s p else data_verdict s p cs)"
proof -
  from find_match_at_threshold[OF assms(2)] obtain cs where
    cs: "match_checks E s p = Inr cs" "3 \<le> matchCount cs" by blast
  from valid_checks_eq[OF cs(1)] assms cs show ?thesis
    by (simp add: validateQRData_def)
qed

text \<open>
  A \<^verbatim>\<open>verifiedAt\<close> that converts to no primitive makes \<^verbatim>\<open>new Date\<close> throw after the
  search: the scan ends in the \<^verbatim>\<open>catch\<close> block, with no submission, whatever was matched.
\<close>

lemma validate_date_throws:
  assumes "parseQRData E qrData = Inr p" and "find_match E p subs = Inr (Some s)"
      and "newDate E (opt_prop p ''verifiedAt'') = Inl e"
  shows "validateQRData E now subs qrData = error_verdict e"
  using assms by (simp add: validateQRData_def)

lemma newDate_example:
  "newDate example_engine (JObj [(''toString'', JNum 1)])
     = Inl (TypeError ''Cannot convert object to primitive value'')"
  by code_simp

lemma validate_submission_iff:
  assumes "parseQRData E qrData = Inr p" and "newDate E (opt_prop p ''verifiedAt'') = Inr d"
  shows "submission (validateQRData E now subs qrData) = Some s \<longleftrightarrow> find_match E p subs = Inr (Some s)"
proof (cases "find_match E p subs")
  case (Inl e)
  with assms show ?thesis by (simp add: validateQRData_def error_verdict_def)
next
  case (Inr r)
  show ?thesis
  proof (cases r)
    case None
    with Inr assms show ?thesis by (simp add: validateQRData_def no_match_verdict_def)
  next
    case (Some m)
    with Inr have f: "find_match E p subs = Inr (Some m)" by simp
    from validate_found[OF assms(1) f assms(2), of now] obtain cs where
      "validateQRData E now subs qrData =
         (if isExpired now d then expired_verdict m p else data_verdict m p cs)" by blast
    then have "submission (validateQRData E now subs qrData) = Some m"
      by (simp add: expired_verdict_def data_verdict_def Let_def)
    with f show ?thesis by auto
  qed
qed

text \<open>
  Claim C1, as the program has it. For a payload that parses and whose \<^verbatim>\<open>verifiedAt\<close>
  converts to a date without an exception, the matcher selects the submission \<open>s\<close> exactly
  when \<open>s\<close> is the first in list order on which the callback of the search runs without an
  exception and finds at least three of the five checks true (name lower-cased and
  trimmed, dob with the N/A and Not-found equivalence, aadhaar, mobile and username by
  strict equality), the callback having run without an exception on every earlier
  submission and found fewer than three. When it runs so on every submission and finds
  fewer than three each time, the result is the no-matching-submission verdict, which
  selects none.
\<close>

theorem matcher_selects_first_at_threshold:
  assumes "parseQRData E qrData = Inr p"
      and "stringifiable (opt_prop p ''verifiedAt'')"
  shows "(submission (validateQRData E now subs qrData) = Some s \<longleftrightarrow>
            (\<exists>pre post. subs = pre @ s # post
               \<and> (\<forall>x\<in>set pre. below_threshold E x p) \<and> at_threshold E s p))
         \<and> ((\<forall>x\<in>set subs. below_threshold E x p) \<longrightarrow>
              validateQRData E now subs qrData =
                \<lparr> isValid = False, submission = None, scannedData = p,
                  message = ''No matching submission found for this QR code data.'',
                  attributeVerification = AVAbsent \<rparr>)"
proof
  from newDate_converts[OF assms(2)] obtain d where
    d: "newDate E (opt_prop p ''verifiedAt'') = Inr d" by blast
  show "submission (validateQRData E now subs qrData) = Some s \<longleftrightarrow>
            (\<exists>pre post. subs = pre @ s # post
               \<and> (\<forall>x\<in>set pre. below_threshold E x p) \<and> at_threshold E s p)"
    using validate_submission_iff[OF assms(1) d] find_match_Some_iff by simp
  show "(\<forall>x\<in>set subs. below_threshold E x p) \<longrightarrow>
              validateQRData E now subs qrData =
                \<lparr> isValid = False, submission = None, scannedData = p,
                  message = ''No matching submission found for this QR code data.'',
                  attributeVerification = AVAbsent \<rparr>"
    using assms(1) find_match_None_iff[of E p subs]
    by (auto simp: validateQRData_def no_match_verdict_def)
qed

theorem matcher_selects_first_at_threshold_witness:
  "parseQRData example_engine (JStr partial_text) = Inr partial_payload
   \<and> stringifiable (opt_prop partial_payload ''verifiedAt'')
   \<and> match_checks example_engine john partial_payload = Inr [False, False, False, True, False]
   \<and> match_checks example_engine jane partial_payload = Inr [True, False, True, True, False]
   \<and> submission (validateQRData example_engine 1704070800000 [john, jane] (JStr partial_text)) = Some jane"
proof -
  have p: "parseQRData example_engine (JStr partial_text) = Inr partial_payload" by code_simp
  have v: "stringifiable (opt_prop partial_payload ''verifiedAt'')" by code_simp
  have m: "match_checks example_engine jane partial_payload = Inr [True, False, True, True, False]"
    by code_simp
  have m': "match_checks example_engine john partial_payload = Inr [False, False, False, True, False]"
    by code_simp
  have a: "at_threshold example_engine jane partial_payload"
    by (simp add: at_threshold_def m matchCount_def)
  have b: "\<forall>x\<in>set [john]. below_threshold example_engine x partial_payload"
    by (simp add: below_threshold_def m' matchCount_def)
  have "[john, jane] = [john] @ jane # []" by simp
  with a b have "\<exists>pre post. [john, jane] = pre @ jane # post
      \<and> (\<forall>x\<in>set pre. below_threshold example_engine x partial_payload)
      \<and> at_threshold example_engine jane partial_payload" by blast
  with matcher_selects_first_at_threshold[OF p v, of 1704070800000 "[john, jane]" jane] p v m m'
  show ?thesis by simp
qed

text \<open>A payload that agrees with the only stored submission on one field finds no match.\<close>

lemma no_match_example:
  "match_checks example_engine john partial_payload = Inr [False, False, False, True, False]
   \<and> validateQRData example_engine 1704070800000 [john] (JStr partial_text)
       = no_match_verdict partial_payload"
  by code_simp

text \<open>
  An object-valued field of the payload that converts to no text ends the search in the
  \<^verbatim>\<open>catch\<close> block, whatever the other fields are.
\<close>

lemma unprintable_field_example:
  "match_checks example_engine jane
     (JObj [(''username'', JObj [(''toString'', JNum 1)]), (''name'', JStr ''Jane Doe''),
            (''dob'', JStr ''N/A''), (''mobile'', JStr ''555''), (''aadhaar'', JStr ''123'')])
   = Inl (TypeError ''Cannot convert object to primitive value'')"
  by code_simp

text \<open>
  The claim without the condition on the earlier submissions fails: after a submission
  without a name, a submission that agrees with the payload on all five fields is not
  selected.
\<close>

theorem later_full_match_not_selected:
  "parseQRData example_engine (JStr jane_text) = Inr jane_payload
   \<and> match_checks example_engine jane jane_payload = Inr [True, True, True, True, True]
   \<and> submission (validateQRData example_engine 1704070800000 [nameless, jane] (JStr jane_text)) = None"
  by code_simp

text \<open>
  Claim C10. If a submission whose name is missing or not a string comes before every
  submission that reaches the threshold, the search throws, and the scan returns the
  failure verdict of the \<^verbatim>\<open>catch\<close> block: not valid, no submission selected, a message
  that starts with \<^verbatim>\<open>Invalid QR code format. \<close>, whatever the later submissions are.
\<close>

theorem missing_name_fails_scan:
  assumes bad: "\<forall>s. field bad ''name'' \<noteq> JStr s"
      and pre: "\<forall>x\<in>set pre. \<not> at_threshold E x p"
      and parse: "parseQRData E qrData = Inr p"
  shows "\<exists>e. find_match E p (pre @ bad # post) = Inl e
            \<and> validateQRData E now (pre @ bad # post) qrData = error_verdict e
            \<and> \<not> isValid (error_verdict e)
            \<and> submission (error_verdict e) = None
            \<and> take 24 (message (error_verdict e)) = ''Invalid QR code format. ''"
proof -
  from find_match_throws[OF pre match_checks_not_string[OF bad]] obtain e where
    e: "find_match E p (pre @ bad # post) = Inl e" by blast
  with parse have "validateQRData E now (pre @ bad # post) qrData = error_verdict e"
    by (simp add: validateQRData_def)
  with e error_verdict_fields[of e] show ?thesis by blast
qed

theorem missing_name_fails_scan_witness:
  "(\<forall>s. field nameless ''name'' \<noteq> JStr s)
   \<and> \<not> at_threshold example_engine john jane_payload
   \<and> match_checks example_engine jane jane_payload = Inr [True, True, True, True, True]
   \<and> (\<exists>e. validateQRData example_engine 1704070800000 [john, nameless, jane] (JStr jane_text)
            = error_verdict e)"
proof -
  have a: "\<forall>s. field nameless ''name'' \<noteq> JStr s" by (simp add: nameless_def field_def)
  have j: "\<not> at_threshold example_engine john jane_payload" by code_simp
  then have b: "\<forall>x\<in>set [john]. \<not> at_threshold example_engine x jane_payload" by simp
  have c: "parseQRData example_engine (JStr jane_text) = Inr jane_payload" by code_simp
  have d: "match_checks example_engine jane jane_payload = Inr [True, True, True, True, True]"
    by code_simp
  from missing_name_fails_scan[OF a b c, of "[jane]" 1704070800000] a j d
  show ?thesis by auto
qed

lemma data_verdict_names:
  "attribute_names (data_verdict s p cs) = [''name'', ''age'', ''mobile'', ''aadhaar'', ''address'']"
  by (simp add: attribute_names_def data_verdict_def Let_def)

lemma data_verdict_requested:
  "a \<in> set [''name'', ''age'', ''mobile'', ''aadhaar'', ''address''] \<Longrightarrow>
   \<exists>d. attribute_entry (data_verdict s p cs) a = Some d \<and> requested d = requested_flag p a"
  by (auto simp: attribute_entry_def data_verdict_def Let_def)

lemma data_verdict_displayed:
  "map fst (displayedAttributes (data_verdict s p cs)) =
   filter (\<lambda>a. truthy (requested_flag p a)) [''name'', ''age'', ''mobile'', ''aadhaar'', ''address'']"
  by (simp add: displayedAttributes_def data_verdict_def Let_def)

lemma data_verdict_age:
  "match_checks E s p = Inr cs \<Longrightarrow>
   \<exists>d. attribute_entry (data_verdict s p cs) ''age'' = Some d
       \<and> verified d = dob_check (field s ''dob'') (opt_prop p ''dob'')"
  by (auto simp: attribute_entry_def data_verdict_def Let_def match_checks_def
      split: sum.splits option.splits)

text \<open>
  Claim C2, as the program has it. For a payload for which the search finds a submission
  and whose \<^verbatim>\<open>verifiedAt\<close> converts to a date that is not expired, the verdict that
  \<^verbatim>\<open>validateQRData\<close> returns has an entry for each of name, age, mobile, aadhaar and
  address, requested or not; each entry carries the flag
  \<^verbatim>\<open>verificationRequested?.[attribute] || false\<close>. The dialog shows the entries whose flag
  is truthy, so what is displayed holds exactly the requested ones among the five. The
  age entry is verified by the dob check.
\<close>

theorem attribute_verdict_lists_all_five:
  assumes parse: "parseQRData E qrData = Inr p"
      and found: "find_match E p subs = Inr (Some s)"
      and date: "newDate E (opt_prop p ''verifiedAt'') = Inr d"
      and fresh: "\<not> isExpired now d"
  shows "attribute_names (validateQRData E now subs qrData)
           = [''name'', ''age'', ''mobile'', ''aadhaar'', ''address'']
       \<and> (\<forall>a\<in>set [''name'', ''age'', ''mobile'', ''aadhaar'', ''address''].
             \<exists>d. attribute_entry (validateQRData E now subs qrData) a = Some d
                \<and> requested d = requested_flag p a)
       \<and> map fst (displayedAttributes (validateQRData E now subs qrData)) =
           filter (\<lambda>a. truthy (requested_flag p a))
                  [''name'', ''age'', ''mobile'', ''aadhaar'', ''address'']
       \<and> (\<exists>d. attribute_entry (validateQRData E now subs qrData) ''age'' = Some d
              \<and> verified d = dob_check (field s ''dob'') (opt_prop p ''dob''))"
proof -
  from validate_found[OF parse found date, of now] fresh obtain cs where
    cs: "match_checks E s p = Inr cs"
    and v: "validateQRData E now subs qrData = data_verdict s p cs" by auto
  show ?thesis
    unfolding v
    using data_verdict_names data_verdict_requested data_verdict_displayed data_verdict_age[OF cs]
    by blast
qed

theorem attribute_verdict_lists_all_five_witness:
  "parseQRData example_engine (JStr jane_text) = Inr jane_payload
   \<and> find_match example_engine jane_payload [jane] = Inr (Some jane)
   \<and> newDate example_engine (opt_prop jane_payload ''verifiedAt'') = Inr (Some 1704067200000)
   \<and> \<not> isExpired 1704070800000 (Some 1704067200000)
   \<and> map fst (displayedAttributes (validateQRData example_engine 1704070800000 [jane] (JStr jane_text)))
       = [''age'']"
proof -
  have p: "parseQRData example_engine (JStr jane_text) = Inr jane_payload" by code_simp
  have f: "find_match example_engine jane_payload [jane] = Inr (Some jane)" by code_simp
  have d: "newDate example_engine (opt_prop jane_payload ''verifiedAt'') = Inr (Some 1704067200000)"
    by code_simp
  have e: "\<not> isExpired 1704070800000 (Some 1704067200000)" by code_simp
  have r: "filter (\<lambda>a. truthy (requested_flag jane_payload a))
             [''name'', ''age'', ''mobile'', ''aadhaar'', ''address''] = [''age'']"
    by code_simp
  from attribute_verdict_lists_all_five[OF p f d e] r p f d e show ?thesis by simp
qed

text \<open>
  With \<^verbatim>\<open>verificationRequested = {age: true}\<close> the returned verdict still has the five
  entries, not the single entry for age.
\<close>

theorem unrequested_attributes_returned:
  "opt_prop jane_payload ''verificationRequested'' = JObj [(''age'', JBool True)]
   \<and> attribute_names (validateQRData example_engine 1704070800000 [jane] (JStr jane_text))
       = [''name'', ''age'', ''mobile'', ''aadhaar'', ''address'']
   \<and> attribute_names (validateQRData example_engine 1704070800000 [jane] (JStr jane_text))
       \<noteq> [''age'']"
  by code_simp

section \<open>Expiry and the status update\<close>

lemma isExpired_iff: "isExpired now (Some t) \<longleftrightarrow> now - t > 24 * 60 * 60 * 1000"
proof -
  have "(24 :: rat) < of_int (now - t) / (1000 * 60 * 60) \<longleftrightarrow> (of_int (86400000 :: int) :: rat) < of_int (now - t)"
    by (simp add: field_simps)
  also have "\<dots> \<longleftrightarrow> 86400000 < now - t" by (simp only: of_int_less_iff)
  finally show ?thesis by (simp add: isExpired_def hoursDiff_def)
qed

lemma handleQRScan_validated:
  "truthy data \<Longrightarrow> truthy (scan_content data) \<Longrightarrow>
   qrValidationResult (handleQRScan E now subs data)
     = Some (validateQRData E now subs (scan_content data))
   \<and> statusUpdate (handleQRScan E now subs data)
     = (case submission (validateQRData E now subs (scan_content data)) of
          Some s \<Rightarrow> if isValid (validateQRData E now subs (scan_content data))
                    then Some (field s ''id'', ''verified'') else None
        | None \<Rightarrow> None)"
  by (simp add: handleQRScan_def Let_def)

text \<open>
  Claim C3, as the program has it. When the search selects a submission for the payload
  (the first in list order at three of five checks, no exception raised on it or before
  it) and the payload's \<^verbatim>\<open>verifiedAt\<close> is a date more than 24 hours before the clock, the
  scan stores the expired verdict and makes no call to \<^verbatim>\<open>updateSubmissionStatus\<close>,
  whatever the five checks say.
\<close>

theorem stale_match_is_expired:
  assumes data: "truthy data" "truthy (scan_content data)"
      and parse: "parseQRData E (scan_content data) = Inr p"
      and split: "subs = pre @ s # post"
      and before: "\<forall>x\<in>set pre. below_threshold E x p"
      and match: "at_threshold E s p"
      and date: "newDate E (opt_prop p ''verifiedAt'') = Inr (Some t)"
      and stale: "now - t > 24 * 60 * 60 * 1000"
  shows "qrValidationResult (handleQRScan E now subs data)
           = Some \<lparr> isValid = False, submission = Some s, scannedData = p,
                    message = ''QR code has expired. Please generate a new QR code for verification.'',
                    attributeVerification = AVNull \<rparr>
       \<and> statusUpdate (handleQRScan E now subs data) = None"
proof -
  from split before match have found: "find_match E p subs = Inr (Some s)"
    using find_match_Some_iff[of E p subs s] by blast
  from validate_found[OF parse found date, of now] stale
  have v: "validateQRData E now subs (scan_content data) = expired_verdict s p"
    by (auto simp: isExpired_iff)
  from handleQRScan_validated[OF data, of E now subs] show ?thesis
    unfolding v by (simp add: expired_verdict_def)
qed

theorem stale_match_is_expired_witness:
  "below_threshold example_engine john jane_payload
   \<and> match_checks example_engine jane jane_payload = Inr [True, True, True, True, True]
   \<and> newDate example_engine (opt_prop jane_payload ''verifiedAt'') = Inr (Some 1704067200000)
   \<and> (1704157200000 :: int) - 1704067200000 = 25 * 60 * 60 * 1000
   \<and> qrValidationResult (handleQRScan example_engine 1704157200000 [john, jane] (JStr jane_text))
       = Some (expired_verdict jane jane_payload)
   \<and> statusUpdate (handleQRScan example_engine 1704157200000 [john, jane] (JStr jane_text)) = None"
proof -
  have d: "truthy (JStr jane_text)" "truthy (scan_content (JStr jane_text))" by code_simp+
  have p: "parseQRData example_engine (scan_content (JStr jane_text)) = Inr jane_payload" by code_simp
  have l: "[john, jane] = [john] @ jane # []" by simp
  have j: "below_threshold example_engine john jane_payload" by code_simp
  then have b: "\<forall>x\<in>set [john]. below_threshold example_engine x jane_payload" by simp
  have m: "match_checks example_engine jane jane_payload = Inr [True, True, True, True, True]" by code_simp
  then have a: "at_threshold example_engine jane jane_payload"
    by (simp add: at_threshold_def matchCount_def)
  have t: "newDate example_engine (opt_prop jane_payload ''verifiedAt'') = Inr (Some 1704067200000)"
    by code_simp
  have s: "(1704157200000 :: int) - 1704067200000 > 24 * 60 * 60 * 1000" by simp
  from stale_match_is_expired[OF d p l b a t s] j m t show ?thesis
    by (simp add: expired_verdict_def)
qed

text \<open>
  The claim for every payload that agrees with some submission on three of five checks
  fails: after a submission without a name, a payload that is 25 hours old and agrees
  with a later submission on all five fields gets the failure verdict of the \<^verbatim>\<open>catch\<close>
  block, not the expired one.
\<close>

theorem stale_full_match_not_expired:
  "match_checks example_engine jane jane_payload = Inr [True, True, True, True, True]
   \<and> newDate example_engine (opt_prop jane_payload ''verifiedAt'') = Inr (Some 1704067200000)
   \<and> isExpired 1704157200000 (Some 1704067200000)
   \<and> qrValidationResult (handleQRScan example_engine 1704157200000 [nameless, jane] (JStr jane_text))
       = Some \<lparr> isValid = False, submission = None, scannedData = JNull,
                message = ''Invalid QR code format. Parse error: Cannot read properties of undefined (reading toLowerCase)'',
                attributeVerification = AVAbsent \<rparr>"
  by code_simp

lemma data_verdict_isValid:
  "match_checks E s p = Inr cs \<Longrightarrow>
   isValid (data_verdict s p cs) \<longleftrightarrow> cs = [True, True, True, True, True]"
  by (auto simp: match_checks_def data_verdict_def Let_def split: sum.splits option.splits)

lemma data_verdict_discrepancy:
  "match_checks E s p = Inr cs \<Longrightarrow> False \<in> set cs \<Longrightarrow>
   \<not> isValid (data_verdict s p cs)
   \<and> message (data_verdict s p cs)
       = ''QR code found matching user but some data discrepancies detected.''"
  by (auto simp: match_checks_def data_verdict_def Let_def split: sum.splits option.splits)

lemma data_verdict_breakdown:
  "match_checks E s p = Inr cs \<Longrightarrow>
   submission (data_verdict s p cs) = Some s
   \<and> map (\<lambda>a. map_option verified (attribute_entry (data_verdict s p cs) a))
         [''name'', ''age'', ''aadhaar'', ''mobile'']
       = [Some (cs ! 0), Some (cs ! 1), Some (cs ! 2), Some (cs ! 3)]"
  by (auto simp: match_checks_def data_verdict_def attribute_entry_def Let_def
      split: sum.splits option.splits)

lemma valid_checks_match:
  assumes "find_match E p subs = Inr (Some s)"
  shows "valid_checks E s p = Inr cs \<longleftrightarrow> match_checks E s p = Inr cs"
proof -
  from find_match_at_threshold[OF assms] obtain cs' where "match_checks E s p = Inr cs'" by blast
  with valid_checks_eq[OF this] show ?thesis by simp
qed

lemma validate_verified_iff:
  "isValid (validateQRData E now subs c) \<and> submission (validateQRData E now subs c) = Some s \<longleftrightarrow>
   (\<exists>p d. parseQRData E c = Inr p \<and> find_match E p subs = Inr (Some s)
        \<and> newDate E (opt_prop p ''verifiedAt'') = Inr d \<and> \<not> isExpired now d
        \<and> valid_checks E s p = Inr [True, True, True, True, True])"
proof (cases "parseQRData E c")
  case (Inl e)
  then show ?thesis by (simp add: validateQRData_def error_verdict_def)
next
  case (Inr p)
  show ?thesis
  proof (cases "newDate E (opt_prop p ''verifiedAt'')")
    case nd: (Inl e)
    with Inr show ?thesis
      by (auto simp: validateQRData_def error_verdict_def no_match_verdict_def
          split: sum.splits option.splits)
  next
    case nd: (Inr d)
    show ?thesis
    proof (cases "find_match E p subs = Inr (Some s)")
      case True
      from validate_found[OF Inr True nd, of now] obtain cs where
        cs: "match_checks E s p = Inr cs"
        and v: "validateQRData E now subs c =
           (if isExpired now d then expired_verdict s p else data_verdict s p cs)" by blast
      show ?thesis
      proof (cases "isExpired now d")
        case e: True
        with v Inr nd show ?thesis by (simp add: expired_verdict_def)
      next
        case e: False
        with v have v': "validateQRData E now subs c = data_verdict s p cs" by simp
        have "submission (data_verdict s p cs) = Some s" by (simp add: data_verdict_def Let_def)
        with Inr True e nd show ?thesis
          unfolding v' using data_verdict_isValid[OF cs] valid_checks_match[OF True] cs by auto
      qed
    next
      case False
      with validate_submission_iff[OF Inr nd, of now subs s] Inr show ?thesis by auto
    qed
  qed
qed

lemma statusUpdate_iff:
  "statusUpdate (handleQRScan E now subs data) = Some u \<longleftrightarrow>
   (truthy data \<and> truthy (scan_content data)
    \<and> (\<exists>s. isValid (validateQRData E now subs (scan_content data))
          \<and> submission (validateQRData E now subs (scan_content data)) = Some s
          \<and> u = (field s ''id'', ''verified'')))"
  by (auto simp: handleQRScan_def Let_def split: option.splits)

lemma isValid_verified:
  "isValid (validateQRData E now subs c) \<Longrightarrow>
   (\<exists>s. submission (validateQRData E now subs c) = Some s)
   \<and> message (validateQRData E now subs c)
       = ''QR code data matches the submission records. User identity verified!''"
  by (auto simp: validateQRData_def error_verdict_def no_match_verdict_def expired_verdict_def
      data_verdict_def Let_def split: sum.splits option.splits if_splits)

lemma statusUpdate_isValid:
  "statusUpdate (handleQRScan E now subs data) \<noteq> None \<longleftrightarrow>
   (\<exists>v. qrValidationResult (handleQRScan E now subs data) = Some v \<and> isValid v
       \<and> message v = ''QR code data matches the submission records. User identity verified!'')"
  using isValid_verified[of E now subs "scan_content data"]
  by (auto simp: handleQRScan_def Let_def split: option.splits)

text \<open>
  Claim C4. A scan calls \<^verbatim>\<open>updateSubmissionStatus(id, 'verified')\<close>, with the id of the
  matched submission, exactly when a match was found, the payload's date is not expired
  and all five validated fields equal the stored ones, that is, exactly when the stored
  verdict is the valid one. When a match is found, the payload is not expired and some
  field differs, the verdict is the discrepancy one, with the entry of every attribute,
  and no call is made; the no-match, expired and failure verdicts are not valid, so they
  make no call either.
\<close>

theorem status_update_iff_verified:
  "(statusUpdate (handleQRScan E now subs data) = Some u \<longleftrightarrow>
      (\<exists>p s d. truthy data \<and> truthy (scan_content data)
          \<and> parseQRData E (scan_content data) = Inr p
          \<and> find_match E p subs = Inr (Some s)
          \<and> newDate E (opt_prop p ''verifiedAt'') = Inr d \<and> \<not> isExpired now d
          \<and> valid_checks E s p = Inr [True, True, True, True, True]
          \<and> u = (field s ''id'', ''verified'')))
   \<and> (statusUpdate (handleQRScan E now subs data) \<noteq> None \<longleftrightarrow>
        (\<exists>v. qrValidationResult (handleQRScan E now subs data) = Some v \<and> isValid v
            \<and> message v = ''QR code data matches the submission records. User identity verified!''))
   \<and> (\<forall>p s d cs. truthy data \<and> truthy (scan_content data)
          \<and> parseQRData E (scan_content data) = Inr p
          \<and> find_match E p subs = Inr (Some s)
          \<and> newDate E (opt_prop p ''verifiedAt'') = Inr d \<and> \<not> isExpired now d
          \<and> valid_checks E s p = Inr cs \<and> False \<in> set cs \<longrightarrow>
          (\<exists>v. qrValidationResult (handleQRScan E now subs data) = Some v
              \<and> \<not> isValid v \<and> submission v = Some s
              \<and> message v = ''QR code found matching user but some data discrepancies detected.''
              \<and> attribute_names v = [''name'', ''age'', ''mobile'', ''aadhaar'', ''address'']
              \<and> map (\<lambda>a. map_option verified (attribute_entry v a))
                    [''name'', ''age'', ''aadhaar'', ''mobile'']
                  = [Some (cs ! 0), Some (cs ! 1), Some (cs ! 2), Some (cs ! 3)])
          \<and> statusUpdate (handleQRScan E now subs data) = None)"
proof (intro conjI)
  show "statusUpdate (handleQRScan E now subs data) = Some u \<longleftrightarrow>
      (\<exists>p s d. truthy data \<and> truthy (scan_content data)
          \<and> parseQRData E (scan_content data) = Inr p
          \<and> find_match E p subs = Inr (Some s)
          \<and> newDate E (opt_prop p ''verifiedAt'') = Inr d \<and> \<not> isExpired now d
          \<and> valid_checks E s p = Inr [True, True, True, True, True]
          \<and> u = (field s ''id'', ''verified''))"
    unfolding statusUpdate_iff using validate_verified_iff[of E now subs "scan_content data"]
    by blast
next
  show "statusUpdate (handleQRScan E now subs data) \<noteq> None \<longleftrightarrow>
        (\<exists>v. qrValidationResult (handleQRScan E now subs data) = Some v \<and> isValid v
            \<and> message v = ''QR code data matches the submission records. User identity verified!'')"
    by (rule statusUpdate_isValid)
next
  show "\<forall>p s d cs. truthy data \<and> truthy (scan_content data)
          \<and> parseQRData E (scan_content data) = Inr p
          \<and> find_match E p subs = Inr (Some s)
          \<and> newDate E (opt_prop p ''verifiedAt'') = Inr d \<and> \<not> isExpired now d
          \<and> valid_checks E s p = Inr cs \<and> False \<in> set cs \<longrightarrow>
          (\<exists>v. qrValidationResult (handleQRScan E now subs data) = Some v
              \<and> \<not> isValid v \<and> submission v = Some s
              \<and> message v = ''QR code found matching user but some data discrepancies detected.''
              \<and> attribute_names v = [''name'', ''age'', ''mobile'', ''aadhaar'', ''address'']
              \<and> map (\<lambda>a. map_option verified (attribute_entry v a))
                    [''name'', ''age'', ''aadhaar'', ''mobile'']
                  = [Some (cs ! 0), Some (cs ! 1), Some (cs ! 2), Some (cs ! 3)])
          \<and> statusUpdate (handleQRScan E now subs data) = None"
  proof (intro allI impI)
    fix p s d cs
    assume h: "truthy data \<and> truthy (scan_content data)
          \<and> parseQRData E (scan_content data) = Inr p
          \<and> find_match E p subs = Inr (Some s)
          \<and> newDate E (opt_prop p ''verifiedAt'') = Inr d \<and> \<not> isExpired now d
          \<and> valid_checks E s p = Inr cs \<and> False \<in> set cs"
    then have found: "find_match E p subs = Inr (Some s)"
      and parse: "parseQRData E (scan_content data) = Inr p"
      and date: "newDate E (opt_prop p ''verifiedAt'') = Inr d"
      by simp_all
    from h valid_checks_match[OF found] have cs: "match_checks E s p = Inr cs" by simp
    from validate_found[OF parse found date, of now] h cs
    have v: "validateQRData E now subs (scan_content data) = data_verdict s p cs" by auto
    from data_verdict_discrepancy[OF cs] h
    have d: "\<not> isValid (data_verdict s p cs)"
      "message (data_verdict s p cs) = ''QR code found matching user but some data discrepancies detected.''"
      by simp_all
    from h handleQRScan_validated[of data E now subs]
    have r: "qrValidationResult (handleQRScan E now subs data) = Some (data_verdict s p cs)"
      and u: "statusUpdate (handleQRScan E now subs data) = None"
      unfolding v using d(1) by (simp_all split: option.splits)
    from r d data_verdict_names[of s p cs] data_verdict_breakdown[OF cs] u
    show "(\<exists>v. qrValidationResult (handleQRScan E now subs data) = Some v
              \<and> \<not> isValid v \<and> submission v = Some s
              \<and> message v = ''QR code found matching user but some data discrepancies detected.''
              \<and> attribute_names v = [''name'', ''age'', ''mobile'', ''aadhaar'', ''address'']
              \<and> map (\<lambda>a. map_option verified (attribute_entry v a))
                    [''name'', ''age'', ''aadhaar'', ''mobile'']
                  = [Some (cs ! 0), Some (cs ! 1), Some (cs ! 2), Some (cs ! 3)])
          \<and> statusUpdate (handleQRScan E now subs data) = None"
      by simp
  qed
qed

theorem status_update_iff_verified_witness:
  "statusUpdate (handleQRScan example_engine 1704070800000 [john, jane] (JStr jane_text))
     = Some (JNum 1700000000000, ''verified'')
   \<and> valid_checks example_engine jane partial_payload = Inr [True, False, True, True, False]
   \<and> statusUpdate (handleQRScan example_engine 1704070800000 [john, jane] (JStr partial_text)) = None"
proof -
  have d: "truthy (JStr jane_text)" "truthy (scan_content (JStr jane_text))" by code_simp+
  have p: "parseQRData example_engine (scan_content (JStr jane_text)) = Inr jane_payload" by code_simp
  have f: "find_match example_engine jane_payload [john, jane] = Inr (Some jane)" by code_simp
  have t: "newDate example_engine (opt_prop jane_payload ''verifiedAt'') = Inr (Some 1704067200000)"
    by code_simp
  have e: "\<not> isExpired 1704070800000 (Some 1704067200000)" by code_simp
  have c: "valid_checks example_engine jane jane_payload = Inr [True, True, True, True, True]"
    by code_simp
  have i: "(JNum 1700000000000, ''verified'') = (field jane ''id'', ''verified'')" by code_simp
  have d': "truthy (JStr partial_text)" "truthy (scan_content (JStr partial_text))" by code_simp+
  have p': "parseQRData example_engine (scan_content (JStr partial_text)) = Inr partial_payload"
    by code_simp
  have f': "find_match example_engine partial_payload [john, jane] = Inr (Some jane)" by code_simp
  have t': "newDate example_engine (opt_prop partial_payload ''verifiedAt'') = Inr (Some 1704067200000)"
    by code_simp
  have c': "valid_checks example_engine jane partial_payload = Inr [True, False, True, True, False]"
    by code_simp
  note t1 = status_update_iff_verified[of example_engine 1704070800000 "[john, jane]" "JStr jane_text"
      "(JNum 1700000000000, ''verified'')"]
  note t2 = status_update_iff_verified[of example_engine 1704070800000 "[john, jane]" "JStr partial_text"
      "(JNum 1700000000000, ''verified'')"]
  from t1 d p f t e c i
  have 1: "statusUpdate (handleQRScan example_engine 1704070800000 [john, jane] (JStr jane_text))
     = Some (JNum 1700000000000, ''verified'')" by blast
  have "False \<in> set [True, False, True, True, False]" by simp
  with t2 d' p' f' t' e c'
  have 2: "statusUpdate (handleQRScan example_engine 1704070800000 [john, jane] (JStr partial_text)) = None"
    by blast
  from 1 2 c' show ?thesis by simp
qed

lemma newDate_undefined: "newDate E JUndefined = Inr None"
  by (simp add: newDate_def)

text \<open>
  Claim C9 does not hold of the program. A \<^verbatim>\<open>verifiedAt\<close> that is absent or does not parse
  gives an invalid date; the difference in hours is \<^verbatim>\<open>NaN\<close>, the comparison with 24 is
  false, and the payload goes on as not expired at any time of the clock: when its five
  fields agree with the matched submission, the scan verifies it and updates the status.
\<close>

theorem unparseable_timestamp_not_expired:
  assumes data: "truthy data" "truthy (scan_content data)"
      and parse: "parseQRData E (scan_content data) = Inr p"
      and found: "find_match E p subs = Inr (Some s)"
      and date: "newDate E (opt_prop p ''verifiedAt'') = Inr None"
      and agree: "match_checks E s p = Inr [True, True, True, True, True]"
  shows "qrValidationResult (handleQRScan E now subs data)
           = Some (data_verdict s p [True, True, True, True, True])
       \<and> isValid (data_verdict s p [True, True, True, True, True])
       \<and> statusUpdate (handleQRScan E now subs data) = Some (field s ''id'', ''verified'')"
proof -
  from validate_found[OF parse found date, of now] agree
  have v: "validateQRData E now subs (scan_content data)
            = data_verdict s p [True, True, True, True, True]"
    by (auto simp: isExpired_def)
  from handleQRScan_validated[OF data, of E now subs] show ?thesis
    unfolding v by (simp add: data_verdict_def)
qed

theorem unparseable_timestamp_not_expired_witness:
  "opt_prop undated_payload ''verifiedAt'' = JUndefined
   \<and> statusUpdate (handleQRScan example_engine 1704070800000 [jane] (JStr undated_text))
        = Some (JNum 1700000000000, ''verified'')
   \<and> statusUpdate (handleQRScan example_engine 4102444800000 [jane] (JStr undated_text))
        = Some (JNum 1700000000000, ''verified'')"
proof -
  have d: "truthy (JStr undated_text)" "truthy (scan_content (JStr undated_text))" by code_simp+
  have p: "parseQRData example_engine (scan_content (JStr undated_text)) = Inr undated_payload"
    by code_simp
  have f: "find_match example_engine undated_payload [jane] = Inr (Some jane)" by code_simp
  have u: "opt_prop undated_payload ''verifiedAt'' = JUndefined" by code_simp
  then have t: "newDate example_engine (opt_prop undated_payload ''verifiedAt'') = Inr None"
    by (simp add: newDate_undefined)
  have m: "match_checks example_engine jane undated_payload = Inr [True, True, True, True, True]"
    by code_simp
  have i: "field jane ''id'' = JNum 1700000000000" by code_simp
  from unparseable_timestamp_not_expired[OF d p f t m] u i show ?thesis by simp
qed

section \<open>The parser\<close>

text \<open>
  The encodings the parser recovers a payload from: a text that is no URL and is JSON, one
  that URL-decodes to JSON, one that base64-decodes to JSON; and the failure when every
  strategy fails.
\<close>

lemma parse_raw_json:
  "newURL E s = None \<Longrightarrow> jsonParse E s = Some v \<Longrightarrow> parseQRData E (JStr s) = Inr v"
  by (simp add: parseQRData_def normalize_def try_url_def try_json_def to_text_def as_text_def)

lemma parse_url_encoded:
  "newURL E s = None \<Longrightarrow> jsonParse E s = None \<Longrightarrow>
   decodeURIComponent (replacePlus s) = Some t \<Longrightarrow> jsonParse E t = Some v \<Longrightarrow>
   parseQRData E (JStr s) = Inr v"
  by (simp add: parseQRData_def normalize_def try_url_def try_json_def try_urldecoded_def
      to_text_def as_text_def)

lemma parse_base64:
  "newURL E s = None \<Longrightarrow> jsonParse E s = None \<Longrightarrow> try_urldecoded E (JStr s) = None \<Longrightarrow>
   atob E s = Some t \<Longrightarrow> jsonParse E t = Some v \<Longrightarrow>
   parseQRData E (JStr s) = Inr v"
  by (simp add: parseQRData_def normalize_def try_url_def try_json_def try_base64_def
      to_text_def as_text_def)

lemma parse_all_fail:
  "normalize E input = Inr n \<Longrightarrow> try_url E n = Inr i \<Longrightarrow> try_json E i = None \<Longrightarrow>
   try_urldecoded E i = None \<Longrightarrow> try_base64 E i = None \<Longrightarrow>
   parseQRData E input = Inl parse_failure"
  by (simp add: parseQRData_def)

lemma parse_example_url:
  \<open>parseQRData example_engine (JStr ''https://x/qr?data=%7B%22name%22%3A%22A%22%7D'') = Inr name_A\<close>
  by code_simp

lemma parse_example_encodings:
  \<open>parseQRData example_engine (JStr ''{"name":"A"}'') = Inr name_A\<close>
  \<open>parseQRData example_engine (JStr ''%7B%22name%22%3A%22A%22%7D'') = Inr name_A\<close>
  \<open>parseQRData example_engine (JStr ''eyJuYW1lIjoiQSJ9'') = Inr name_A\<close>
  \<open>parseQRData example_engine (JStr ''not a payload'') = Inl parse_failure\<close>
  by code_simp+

lemma url_payload_plus:
  \<open>url_payload ''data=%7B%22mobile%22%3A%22%2B91%22%7D'' = JStr ''{"mobile":"+91"}''\<close>
  by code_simp

lemma decode_plus:
  \<open>decodeURIComponent (replacePlus ''{"mobile":"+91"}'') = Some ''{"mobile":" 91"}''\<close>
  by code_simp

text \<open>
  Claim C7 does not hold of the program for a URL whose payload holds a plus sign or a
  percent sign. \<^verbatim>\<open>url.searchParams.get\<close> has already decoded the parameter; the parser
  decodes it a second time, after turning each plus sign into a space. Here the payload
  \<^verbatim>\<open>{"mobile":"+91"}\<close>, URL-encoded in the \<^verbatim>\<open>data\<close> parameter, is handed to \<^verbatim>\<open>JSON.parse\<close>
  as \<^verbatim>\<open>{"mobile":" 91"}\<close>, and the object parsed from that text is what the parser returns.
\<close>

theorem url_payload_decoded_twice:
  assumes url: \<open>newURL E ''https://x/qr?data=%7B%22mobile%22%3A%22%2B91%22%7D''
                 = Some ''data=%7B%22mobile%22%3A%22%2B91%22%7D''\<close>
      and json: \<open>jsonParse E ''{"mobile":" 91"}'' = Some v\<close>
  shows \<open>parseQRData E (JStr ''https://x/qr?data=%7B%22mobile%22%3A%22%2B91%22%7D'') = Inr v\<close>
  using assms
  by (simp add: parseQRData_def normalize_def try_url_def to_text_def as_text_def
      url_payload_plus decode_plus)

theorem url_payload_decoded_twice_witness:
  \<open>jsonParse example_engine ''{"mobile":"+91"}'' = Some (JObj [(''mobile'', JStr ''+91'')])
   \<and> parseQRData example_engine (JStr ''https://x/qr?data=%7B%22mobile%22%3A%22%2B91%22%7D'')
       = Inr (JObj [(''mobile'', JStr '' 91'')])\<close>
proof -
  have u: \<open>newURL example_engine ''https://x/qr?data=%7B%22mobile%22%3A%22%2B91%22%7D''
             = Some ''data=%7B%22mobile%22%3A%22%2B91%22%7D''\<close> by code_simp
  have j: \<open>jsonParse example_engine ''{"mobile":" 91"}'' = Some (JObj [(''mobile'', JStr '' 91'')])\<close>
    by code_simp
  have k: \<open>jsonParse example_engine ''{"mobile":"+91"}'' = Some (JObj [(''mobile'', JStr ''+91'')])\<close>
    by code_simp
  from url_payload_decoded_twice[OF u j] k show ?thesis by simp
qed

section \<open>The codec and the queue\<close>

text \<open>
  The decryption reports a failure exactly when the cipher throws, when the decrypted
  bytes are not UTF-8 text, or when the text is not JSON or is the JSON \<^verbatim>\<open>null\<close>; the codec
  makes no other check of the blob.
\<close>

lemma decrypt_null_iff:
  "decryptSubmissionData E blob = JNull \<longleftrightarrow>
     (case aesDecrypt E blob ENCRYPTION_KEY of
        None \<Rightarrow> True
      | Some decrypted \<Rightarrow>
          (case utf8Stringify E decrypted of
             None \<Rightarrow> True
           | Some jsonString \<Rightarrow>
               jsonParse E jsonString = None \<or> jsonParse E jsonString = Some JNull))"
  by (auto simp: decryptSubmissionData_def split: option.splits)

text \<open>
  Claim C5. With a cipher that decrypts what it encrypted under the same passphrase, for
  every record that serializes to a JSON text that parses back to it, encryption succeeds
  and decrypting its result gives the record again.
\<close>

theorem decrypt_encrypt_round_trip:
  assumes "cipher_round_trip E" and "cipher_total E" and "serializes E R"
  shows "\<exists>c. encryptSubmissionData E R = Some c \<and> decryptSubmissionData E (JStr c) = R"
proof -
  from \<open>serializes E R\<close> obtain js where
    s: "jsonStringify E R = Some (JStr js)" and p: "jsonParse E js = Some R"
    by (auto simp: serializes_def split: option.splits jsval.splits)
  from \<open>cipher_total E\<close> obtain c where c: "aesEncrypt E (JStr js) ENCRYPTION_KEY = Some c"
    by (auto simp: cipher_total_def)
  with \<open>cipher_round_trip E\<close> obtain b where
    b: "aesDecrypt E (JStr c) ENCRYPTION_KEY = Some b" "utf8Stringify E b = Some js"
    unfolding cipher_round_trip_def by blast
  from s c have "encryptSubmissionData E R = Some c" by (simp add: encryptSubmissionData_def)
  moreover from b p have "decryptSubmissionData E (JStr c) = R"
    by (simp add: decryptSubmissionData_def)
  ultimately show ?thesis by blast
qed

theorem decrypt_encrypt_round_trip_witness:
  "cipher_round_trip example_engine \<and> cipher_total example_engine
   \<and> serializes example_engine jane_payload
   \<and> (\<exists>c. encryptSubmissionData example_engine jane_payload = Some c
          \<and> decryptSubmissionData example_engine (JStr c) = jane_payload)"
proof -
  have a: "cipher_round_trip example_engine"
    by (auto simp: cipher_round_trip_def example_engine_def)
  have b: "cipher_total example_engine"
    by (simp add: cipher_total_def example_engine_def)
  have c: "serializes example_engine jane_payload" by code_simp
  from decrypt_encrypt_round_trip[OF a b c] a b c show ?thesis by blast
qed

lemma map_of_replace_key:
  "map_of kvs k \<noteq> None \<Longrightarrow> map_of (replace_key kvs k v) = (map_of kvs)(k \<mapsto> v)"
  by (induction kvs) (auto simp: fun_eq_iff)

lemma map_of_insert_key:
  "map_of kvs k = None \<Longrightarrow> map_of (insert_key kvs k v) = (map_of kvs)(k \<mapsto> v)"
  by (induction kvs) (auto simp: fun_eq_iff split: if_splits)

lemma map_of_set_prop: "map_of (set_prop kvs k v) = (map_of kvs)(k \<mapsto> v)"
  by (simp add: set_prop_def map_of_replace_key map_of_insert_key)

lemma field_set_prop: "field (set_prop kvs k v) k' = (if k' = k then v else field kvs k')"
  by (simp add: field_def map_of_set_prop)

lemma map_of_fold_set_prop:
  "map_of (fold (\<lambda>(k, v) acc. set_prop acc k v) kvs acc) k' =
     (case map_of (rev kvs) k' of Some v \<Rightarrow> Some v | None \<Rightarrow> map_of acc k')"
  by (induction kvs arbitrary: acc)
     (auto simp: map_of_set_prop map_add_def split: option.splits)

lemma map_of_rev_distinct: "distinct (map fst kvs) \<Longrightarrow> map_of (rev kvs) k = map_of kvs k"
proof (induction kvs)
  case Nil
  show ?case by simp
next
  case (Cons a kvs)
  then have ih: "map_of (rev kvs) k = map_of kvs k" and nin: "fst a \<notin> fst ` set kvs"
    by simp_all
  from nin have none: "map_of kvs (fst a) = None" by (simp add: map_of_eq_None_iff)
  show ?case
  proof (cases "k = fst a")
    case True
    with ih none show ?thesis by (cases a) (simp add: map_add_def)
  next
    case False
    with ih show ?thesis by (cases a) (simp add: map_add_def split: option.splits)
  qed
qed

lemma decorate_submittedAt: "field (decorate E doc dd) ''submittedAt'' = field doc ''submittedAt''"
  by (simp add: decorate_def field_set_prop)

lemma decorate_status:
  "field (decorate E doc dd) ''status'' =
     (if truthy (field doc ''status'') then field doc ''status'' else JStr ''pending'')"
  by (simp add: decorate_def field_set_prop)

lemma decorate_id:
  "map_of (spread_props E dd) ''id'' = None \<Longrightarrow> field (decorate E doc dd) ''id'' = field doc ''id''"
proof -
  assume a: "map_of (spread_props E dd) ''id'' = None"
  then have "''id'' \<notin> fst ` set (spread_props E dd)" by (simp add: map_of_eq_None_iff)
  then have "map_of (rev (spread_props E dd)) ''id'' = None" by (simp add: map_of_eq_None_iff)
  then show ?thesis
    by (simp add: decorate_def field_set_prop) (simp add: field_def map_of_fold_set_prop)
qed

lemma decorate_fields:
  assumes "distinct (map fst kvs)" and "k \<in> fst ` set kvs"
      and "k \<noteq> ''submittedAt''" and "k \<noteq> ''status''"
  shows "field (decorate E doc (JObj kvs)) k = field kvs k"
proof -
  from assms(2) have "map_of kvs k \<noteq> None" by (simp add: map_of_eq_None_iff)
  then obtain v where v: "map_of kvs k = Some v" by auto
  with map_of_rev_distinct[OF assms(1), of k] have "map_of (rev kvs) k = Some v" by simp
  with v assms(3,4) show ?thesis
    by (simp add: decorate_def field_set_prop spread_props_def)
       (simp add: field_def map_of_fold_set_prop)
qed

lemma stored_submission_id: "stored_submission doc \<Longrightarrow> stringifiable (field doc ''id'')"
  by (cases "field doc ''id''") (simp_all add: stored_submission_def)

lemma stored_submission_log:
  "\<forall>doc\<in>set docs. stored_submission doc \<Longrightarrow> first_document_log E docs = None"
  by (cases docs)
     (auto simp: first_document_log_def stored_submission_def split: jsval.splits)

lemma map_entries_stored:
  "\<forall>doc\<in>set docs. stored_submission doc \<Longrightarrow>
   map_entries E docs =
     Inr (map (\<lambda>doc. if readable E doc
                      then Some (decorate E doc (decryptSubmissionData E (field doc ''encryptedData'')))
                      else None) docs)"
  by (induction docs)
     (auto simp: decrypt_entry_def readable_def Let_def stored_submission_id)

lemma getSubmissions_stored:
  assumes "\<forall>doc\<in>set docs. stored_submission doc"
  shows "getSubmissions E docs =
     Inr (map (\<lambda>doc. decorate E doc (decryptSubmissionData E (field doc ''encryptedData'')))
              (filter (readable E) docs))"
proof -
  have "map the (filter (\<lambda>entry. entry \<noteq> None)
          (map (\<lambda>doc. if readable E doc
                       then Some (decorate E doc (decryptSubmissionData E (field doc ''encryptedData'')))
                       else None) ds))
        = map (\<lambda>doc. decorate E doc (decryptSubmissionData E (field doc ''encryptedData'')))
              (filter (readable E) ds)" for ds
    by (induction ds) simp_all
  with stored_submission_log[OF assms] map_entries_stored[OF assms] show ?thesis
    by (simp add: getSubmissions_def)
qed

text \<open>
  Claim C8, as the program has it. For stored submissions of the shape the queue writes
  (\<^verbatim>\<open>encryptedData\<close> a string or missing, an id that is no object, a status),
  \<^verbatim>\<open>getSubmissions\<close> returns, in the stored order, one entry for each submission whose
  \<^verbatim>\<open>encryptedData\<close> decrypts to a truthy value, and drops the others without failing. An
  entry has the stored \<^verbatim>\<open>submittedAt\<close> and status, the stored id when the decrypted record
  has no id of its own, and the other fields of the decrypted record.
\<close>

theorem getSubmissions_returns_readable:
  assumes "\<forall>doc\<in>set docs. stored_submission doc"
  shows "getSubmissions E docs =
     Inr (map (\<lambda>doc. decorate E doc (decryptSubmissionData E (field doc ''encryptedData'')))
              (filter (readable E) docs))
   \<and> (\<forall>doc\<in>set docs. \<forall>dd.
         field (decorate E doc dd) ''submittedAt'' = field doc ''submittedAt''
         \<and> field (decorate E doc dd) ''status'' = field doc ''status''
         \<and> (map_of (spread_props E dd) ''id'' = None \<longrightarrow>
              field (decorate E doc dd) ''id'' = field doc ''id'')
         \<and> (\<forall>kvs k. dd = JObj kvs \<and> distinct (map fst kvs) \<and> k \<in> fst ` set kvs
                \<and> k \<noteq> ''id'' \<and> k \<noteq> ''submittedAt'' \<and> k \<noteq> ''status'' \<longrightarrow>
                field (decorate E doc dd) k = field kvs k))"
proof (intro conjI ballI allI impI)
  show "getSubmissions E docs =
     Inr (map (\<lambda>doc. decorate E doc (decryptSubmissionData E (field doc ''encryptedData'')))
              (filter (readable E) docs))"
    by (rule getSubmissions_stored[OF assms])
next
  fix doc dd
  show "field (decorate E doc dd) ''submittedAt'' = field doc ''submittedAt''"
    by (rule decorate_submittedAt)
next
  fix doc dd
  assume "doc \<in> set docs"
  with assms have "truthy (field doc ''status'')" by (simp add: stored_submission_def)
  then show "field (decorate E doc dd) ''status'' = field doc ''status''"
    by (simp add: decorate_status)
next
  fix doc dd
  assume "map_of (spread_props E dd) ''id'' = None"
  then show "field (decorate E doc dd) ''id'' = field doc ''id''"
    by (rule decorate_id)
next
  fix doc dd kvs k
  assume "dd = JObj kvs \<and> distinct (map fst kvs) \<and> k \<in> fst ` set kvs
                \<and> k \<noteq> ''id'' \<and> k \<noteq> ''submittedAt'' \<and> k \<noteq> ''status''"
  then show "field (decorate E doc dd) k = field kvs k"
    using decorate_fields[of kvs k E doc] by simp
qed

theorem getSubmissions_returns_readable_witness:
  "stored_submission stored_corrupt \<and> stored_submission stored_A
   \<and> readable example_engine stored_A \<and> \<not> readable example_engine stored_corrupt
   \<and> getSubmissions example_engine [stored_corrupt, stored_A]
       = Inr [[(''id'', JNum 1700000000000), (''name'', JStr ''A''),
               (''submittedAt'', JStr ''2023-11-14T22:13:20.000Z''),
               (''status'', JStr ''pending'')]]"
proof -
  have w: "stored_submission stored_corrupt" "stored_submission stored_A" by code_simp+
  then have a: "\<forall>doc\<in>set [stored_corrupt, stored_A]. stored_submission doc" by simp
  have r: "readable example_engine stored_A" "\<not> readable example_engine stored_corrupt"
    by code_simp+
  have d: "decorate example_engine stored_A
             (decryptSubmissionData example_engine (field stored_A ''encryptedData''))
           = [(''id'', JNum 1700000000000), (''name'', JStr ''A''),
              (''submittedAt'', JStr ''2023-11-14T22:13:20.000Z''),
              (''status'', JStr ''pending'')]"
    by code_simp
  from getSubmissions_returns_readable[OF a, of example_engine] r d
  have "getSubmissions example_engine [stored_corrupt, stored_A]
       = Inr [[(''id'', JNum 1700000000000), (''name'', JStr ''A''),
               (''submittedAt'', JStr ''2023-11-14T22:13:20.000Z''),
               (''status'', JStr ''pending'')]]"
    by simp
  with w r show ?thesis by simp
qed

text \<open>
  The claim as it stands fails three ways. A record that is the JSON \<^verbatim>\<open>false\<close> decrypts,
  not to the failure signal \<^verbatim>\<open>null\<close>, and is dropped all the same. A record with an id of
  its own is returned with that id, not the stored one. And a first document whose
  \<^verbatim>\<open>encryptedData\<close> is a number is not dropped: its log line throws and the whole read
  fails, although the same document is dropped when it is not the first.
\<close>

theorem getSubmissions_deviations:
  "decryptSubmissionData example_engine (field stored_false ''encryptedData'') = JBool False
   \<and> getSubmissions example_engine [stored_false] = Inr []
   \<and> field stored_own_id ''id'' = JNum 1692000000000
   \<and> getSubmissions example_engine [stored_own_id]
       = Inr [[(''id'', JNum 7), (''name'', JStr ''A''),
               (''submittedAt'', JStr ''2023-08-14T08:00:00.000Z''),
               (''status'', JStr ''pending'')]]
   \<and> getSubmissions example_engine [stored_number, stored_A]
       = Inl (TypeError ''substring is not a function'')
   \<and> getSubmissions example_engine [stored_A, stored_number]
       = Inr [[(''id'', JNum 1700000000000), (''name'', JStr ''A''),
               (''submittedAt'', JStr ''2023-11-14T22:13:20.000Z''),
               (''status'', JStr ''pending'')]]"
  by code_simp

end
